theory Spec2Isabelle
  imports Main "HOL-Library.Word"
begin

unbundle bit_operations_syntax

section \<open>JavaScript numbers as the module uses them\<close>

text \<open>
  The module \<^verbatim>\<open>zip.js\<close> computes with JavaScript numbers. Every number that occurs is an
  integer far below \<open>2 ^ 53\<close> (bytes, array lengths, 32-bit results of the bit operators
  and sums of a few of them), so a number is an unbounded integer, or \<open>NaN\<close>. The value
  \<^verbatim>\<open>undefined\<close> (a typed-array read outside the array, a field that was never assigned)
  is represented by \<open>NaN\<close> as well: every operator the module applies to such a value
  (\<^verbatim>\<open>+\<close>, the bit operators, \<^verbatim>\<open><=\<close>, \<^verbatim>\<open>===\<close>) treats the two alike.
\<close>

datatype number = Num int | NaN

type_synonym byte = "8 word"

text \<open>\<^verbatim>\<open>ToInt32\<close> and \<^verbatim>\<open>ToUint32\<close> produce the same 32 bits; \<open>NaN\<close> becomes 0.\<close>

definition toInt32 :: "number \<Rightarrow> 32 word" where
  "toInt32 v = (case v of Num x \<Rightarrow> word_of_int x | NaN \<Rightarrow> 0)"

text \<open>The bit operators: all give a signed 32-bit result, except \<^verbatim>\<open>>>>\<close>, which is unsigned.\<close>

definition js_and :: "number \<Rightarrow> number \<Rightarrow> number" where
  "js_and a b = Num (sint (toInt32 a AND toInt32 b))"

definition js_or :: "number \<Rightarrow> number \<Rightarrow> number" where
  "js_or a b = Num (sint (toInt32 a OR toInt32 b))"

definition js_xor :: "number \<Rightarrow> number \<Rightarrow> number" where
  "js_xor a b = Num (sint (toInt32 a XOR toInt32 b))"

definition js_not :: "number \<Rightarrow> number" where
  "js_not a = Num (sint (NOT (toInt32 a)))"

definition js_shl :: "number \<Rightarrow> nat \<Rightarrow> number" where
  "js_shl a n = Num (sint (push_bit (n mod 32) (toInt32 a)))"

definition js_shr :: "number \<Rightarrow> nat \<Rightarrow> number" where
  "js_shr a n = Num (sint (signed_drop_bit (n mod 32) (toInt32 a)))"

definition js_ushr :: "number \<Rightarrow> nat \<Rightarrow> number" where
  "js_ushr a n = Num (uint (drop_bit (n mod 32) (toInt32 a)))"

fun js_add :: "number \<Rightarrow> number \<Rightarrow> number" where
  "js_add (Num a) (Num b) = Num (a + b)"
| "js_add _ _ = NaN"

text \<open>Truthiness of a number, as a condition of \<^verbatim>\<open>?:\<close> or \<^verbatim>\<open>if\<close> reads it.\<close>

fun truthy :: "number \<Rightarrow> bool" where
  "truthy (Num x) = (x \<noteq> 0)"
| "truthy NaN = False"

section \<open>Class Crc32\<close>

text \<open>
  The constructor's inner loop: \<open>j\<close> rounds of
  \<^verbatim>\<open>const mc = c >>> 1; c = c & 1 ? 0xedb88320 ^ mc : mc;\<close>
\<close>

fun crc_rounds :: "nat \<Rightarrow> number \<Rightarrow> number" where
  "crc_rounds 0 c = c"
| "crc_rounds (Suc j) c =
     crc_rounds j (let mc = js_ushr c 1
                   in if truthy (js_and c (Num 1)) then js_xor (Num 0xedb88320) mc else mc)"

text \<open>
  The table is a \<^verbatim>\<open>Uint32Array(256)\<close>: storing \<open>c\<close> into slot \<open>i\<close> keeps its 32 bits,
  read as unsigned.
\<close>

definition crc_table :: "int list" where
  "crc_table = map (\<lambda>i. uint (toInt32 (crc_rounds 8 (Num (int i))))) [0..<256]"

text \<open>\<^verbatim>\<open>this.#table[k]\<close>: \<^verbatim>\<open>undefined\<close> outside the table.\<close>

definition table_at :: "number \<Rightarrow> number" where
  "table_at k = (case k of
       Num i \<Rightarrow> if 0 \<le> i \<and> i < int (length crc_table) then Num (crc_table ! nat i) else NaN
     | NaN \<Rightarrow> NaN)"

definition calc_step :: "number \<Rightarrow> byte \<Rightarrow> number" where
  "calc_step c b = js_xor (table_at (js_and (js_xor c (Num (uint b))) (Num 0xff))) (js_ushr c 8)"

definition calc :: "byte list \<Rightarrow> number" where
  "calc bytes = js_xor (foldl calc_step (Num 0xffffffff) bytes) (Num 0xffffffff)"

subsection \<open>The reference: bitwise reflected CRC-32\<close>

text \<open>
  The standard reflected CRC-32 on 32-bit words, one bit at a time: the register starts
  at \<open>0xFFFFFFFF\<close>; each byte is XORed into the low end and shifted out in eight steps,
  each step XORing the polynomial \<open>0xEDB88320\<close> in when the bit shifted out is set; the
  result is the register XOR \<open>0xFFFFFFFF\<close>.
\<close>

definition crc_shift :: "32 word \<Rightarrow> 32 word" where
  "crc_shift w = drop_bit 1 w XOR (if bit w 0 then 0xEDB88320 else 0)"

definition crc_byte :: "32 word \<Rightarrow> byte \<Rightarrow> 32 word" where
  "crc_byte c b = (crc_shift ^^ 8) (c XOR ucast b)"

definition crc32_reference :: "byte list \<Rightarrow> 32 word" where
  "crc32_reference bytes = foldl crc_byte 0xFFFFFFFF bytes XOR 0xFFFFFFFF"

section \<open>Class ZipDateTime\<close>

record ZipDateTime =
  year :: number
  month :: number
  day :: number
  hour :: number
  minute :: number
  second :: number

fun js_sub :: "number \<Rightarrow> number \<Rightarrow> number" where
  "js_sub (Num a) (Num b) = Num (a - b)"
| "js_sub _ _ = NaN"

text \<open>\<^verbatim>\<open>Math.floor(s / 2)\<close> on an integer \<open>s\<close>.\<close>

fun floor_half :: "number \<Rightarrow> number" where
  "floor_half (Num s) = Num (s div 2)"
| "floor_half NaN = NaN"

fun js_mul :: "number \<Rightarrow> number \<Rightarrow> number" where
  "js_mul (Num a) (Num b) = Num (a * b)"
| "js_mul _ _ = NaN"

text \<open>
  \<^verbatim>\<open>toInt\<close>: a sum of five shifted terms (each a signed 32-bit value; \<^verbatim>\<open>-\<close> binds
  tighter than \<^verbatim>\<open><<\<close>) and \<^verbatim>\<open>Math.floor(this.second / 2)\<close>.
\<close>

definition toInt :: "ZipDateTime \<Rightarrow> number" where
  "toInt dt =
     js_add (js_add (js_add (js_add (js_add
       (js_shl (js_sub (year dt) (Num 1980)) 25)
       (js_shl (month dt) 21))
       (js_shl (day dt) 16))
       (js_shl (hour dt) 11))
       (js_shl (minute dt) 5))
       (floor_half (second dt))"

definition fromInt :: "number \<Rightarrow> ZipDateTime" where
  "fromInt i = \<lparr>
     year = js_add (Num 1980) (js_ushr i 25),
     month = js_and (js_ushr i 21) (Num 15),
     day = js_and (js_ushr i 16) (Num 31),
     hour = js_and (js_ushr i 11) (Num 31),
     minute = js_and (js_ushr i 5) (Num 63),
     second = js_mul (js_and i (Num 31)) (Num 2) \<rparr>"

section \<open>Errors\<close>

text \<open>
  Every \<^verbatim>\<open>throw\<close> of the module and every exception of the runtime that its code can
  raise is a value:
  \<^item> \<open>IndexInvalid v\<close>: \<^verbatim>\<open>Error('Index is invalid: ' + v)\<close> of the cursor;
  \<^item> \<open>NoContent_at i\<close>: \<^verbatim>\<open>Error('No content at the index: ' + i)\<close> of \<^verbatim>\<open>pick\<close>;
  \<^item> \<open>UnsupportedMethod m\<close>: \<^verbatim>\<open>Error('Unsupported compression method: ' + m)\<close>;
  \<^item> \<open>RangeError\<close>, \<open>TypeError\<close>: raised by the runtime (a typed-array \<^verbatim>\<open>set\<close> at a
    negative offset, a property of \<^verbatim>\<open>undefined\<close>).
\<close>

datatype error =
    IndexInvalid number
  | NoContent_at number
  | UnsupportedMethod number
  | RangeError
  | TypeError

definition bindE :: "error + 'a \<Rightarrow> ('a \<Rightarrow> error + 'b) \<Rightarrow> error + 'b" where
  "bindE m f = (case m of Inl e \<Rightarrow> Inl e | Inr x \<Rightarrow> f x)"

section \<open>Class ByteArrayCursor\<close>

text \<open>
  The cursor holds a \<^verbatim>\<open>Uint8Array\<close> and the private offset. An operation returns its
  result with the cursor after it, or the error it throws.
\<close>

record cursor =
  bytes :: "byte list"
  offset :: int

definition new_cursor :: "byte list \<Rightarrow> cursor" where
  "new_cursor bs = \<lparr>bytes = bs, offset = 0\<rparr>"

text \<open>The setter: \<^verbatim>\<open>if (v <= this.bytes.length) this.#offset = v; else throw ...\<close>\<close>

definition set_offset :: "cursor \<Rightarrow> number \<Rightarrow> error + cursor" where
  "set_offset c v = (case v of
       Num x \<Rightarrow> if x \<le> int (length (bytes c)) then Inr (c\<lparr>offset := x\<rparr>)
                else Inl (IndexInvalid v)
     | NaN \<Rightarrow> Inl (IndexInvalid v))"

text \<open>An element of a \<^verbatim>\<open>Uint8Array\<close>: \<^verbatim>\<open>undefined\<close> outside the array.\<close>

definition byte_at :: "byte list \<Rightarrow> int \<Rightarrow> number" where
  "byte_at bs i = (if 0 \<le> i \<and> i < int (length bs) then Num (uint (bs ! nat i)) else NaN)"

text \<open>Storing a number in a \<^verbatim>\<open>Uint8Array\<close> keeps its low 8 bits; outside the array nothing happens.\<close>

definition toUint8 :: "number \<Rightarrow> byte" where
  "toUint8 v = (case v of Num x \<Rightarrow> word_of_int x | NaN \<Rightarrow> 0)"

definition store_byte :: "byte list \<Rightarrow> int \<Rightarrow> number \<Rightarrow> byte list" where
  "store_byte bs i v = (if 0 \<le> i \<and> i < int (length bs) then bs[nat i := toUint8 v] else bs)"

text \<open>
  \<^verbatim>\<open>read() { return this.bytes[this.offset++]; }\<close>: the increment goes through the
  setter first, the element is read at the old offset. \<^verbatim>\<open>write(b)\<close> (here \<open>write_byte\<close>)
  stores in the same way.
\<close>

definition read :: "cursor \<Rightarrow> error + (number \<times> cursor)" where
  "read c = bindE (set_offset c (Num (offset c + 1)))
     (\<lambda>c'. Inr (byte_at (bytes c) (offset c), c'))"

definition write_byte :: "cursor \<Rightarrow> number \<Rightarrow> error + cursor" where
  "write_byte c b = bindE (set_offset c (Num (offset c + 1)))
     (\<lambda>c'. Inr (c'\<lparr>bytes := store_byte (bytes c) (offset c) b\<rparr>))"

definition readAsUshort :: "cursor \<Rightarrow> error + (number \<times> cursor)" where
  "readAsUshort c =
     bindE (read c) (\<lambda>(b0, c1).
     bindE (read c1) (\<lambda>(b1, c2).
     Inr (js_add b0 (js_shl b1 8), c2)))"

definition writeUshort :: "cursor \<Rightarrow> number \<Rightarrow> error + cursor" where
  "writeUshort c s =
     bindE (write_byte c (js_and s (Num 0xff))) (\<lambda>c1.
     write_byte c1 (js_and (js_ushr s 8) (Num 0xff)))"

definition readAsInt :: "cursor \<Rightarrow> error + (number \<times> cursor)" where
  "readAsInt c =
     bindE (read c) (\<lambda>(b0, c1).
     bindE (read c1) (\<lambda>(b1, c2).
     bindE (read c2) (\<lambda>(b2, c3).
     bindE (read c3) (\<lambda>(b3, c4).
     Inr (js_add (js_add (js_add b0 (js_shl b1 8)) (js_shl b2 16)) (js_shl b3 24), c4)))))"

definition writeInt :: "cursor \<Rightarrow> number \<Rightarrow> error + cursor" where
  "writeInt c i =
     bindE (write_byte c (js_and i (Num 0xff))) (\<lambda>c1.
     bindE (write_byte c1 (js_and (js_ushr i 8) (Num 0xff))) (\<lambda>c2.
     bindE (write_byte c2 (js_and (js_ushr i 16) (Num 0xff))) (\<lambda>c3.
     write_byte c3 (js_and (js_ushr i 24) (Num 0xff)))))"

definition readAsUint :: "cursor \<Rightarrow> error + (number \<times> cursor)" where
  "readAsUint c = bindE (readAsInt c) (\<lambda>(v, c'). Inr (js_ushr v 0, c'))"

text \<open>
  \<^verbatim>\<open>Uint8Array.prototype.subarray(begin, end)\<close>: a relative index below zero counts from
  the end, both indices are clamped to the array, \<open>NaN\<close> is 0. The view is represented
  by the bytes it shows (nothing writes to an array that has views).
\<close>

definition rel_index :: "number \<Rightarrow> nat \<Rightarrow> nat" where
  "rel_index v n = (case v of
       Num i \<Rightarrow> if i < 0 then nat (max (int n + i) 0) else nat (min i (int n))
     | NaN \<Rightarrow> 0)"

definition typed_subarray :: "byte list \<Rightarrow> number \<Rightarrow> number \<Rightarrow> byte list" where
  "typed_subarray bs b e =
     (let bi = rel_index b (length bs); ei = rel_index e (length bs)
      in take (ei - bi) (drop bi bs))"

definition subarray :: "cursor \<Rightarrow> number \<Rightarrow> error + (byte list \<times> cursor)" where
  "subarray c len =
     (let sub = typed_subarray (bytes c) (Num (offset c)) (js_add (Num (offset c)) len)
      in bindE (set_offset c (js_add (Num (offset c)) len)) (\<lambda>c'. Inr (sub, c')))"

text \<open>
  \<^verbatim>\<open>set(bytes)\<close>: the cursor's own length check, then \<^verbatim>\<open>Uint8Array.prototype.set\<close>, which
  raises a \<^verbatim>\<open>RangeError\<close> at a negative offset, then the setter.
\<close>

definition set_bytes :: "cursor \<Rightarrow> byte list \<Rightarrow> error + cursor" where
  "set_bytes c src =
     (let nextOffset = int (length src) + offset c
      in if int (length (bytes c)) < nextOffset then Inl (IndexInvalid (Num nextOffset))
         else if offset c < 0 then Inl RangeError
         else set_offset
                (c\<lparr>bytes := take (nat (offset c)) (bytes c) @ src @ drop (nat nextOffset) (bytes c)\<rparr>)
                (Num nextOffset))"

definition moveTo :: "cursor \<Rightarrow> number \<Rightarrow> error + cursor" where
  "moveTo c index = set_offset c index"

section \<open>Class LocalFileHeader\<close>

record LocalFileHeader =
  signature :: number
  versionNeeded :: number
  flags :: number
  "method" :: number
  lastModified :: ZipDateTime
  crc32 :: number
  compressedSize :: number
  uncompressedSize :: number
  fileNameBytes :: "byte list"
  extraFieldBytes :: "byte list"

text \<open>
  The field initializers. \<open>now\<close> is \<^verbatim>\<open>ZipDateTime.fromDate()\<close>, the clock's reading. The
  two byte arrays have no initializer; both users of the constructor (\<^verbatim>\<open>from\<close> and
  \<^verbatim>\<open>Builder.append\<close>) assign them before anything reads them, and they start empty here.
\<close>

definition new_LocalFileHeader :: "ZipDateTime \<Rightarrow> LocalFileHeader" where
  "new_LocalFileHeader now = \<lparr>
     signature = Num 0x04034b50,
     versionNeeded = Num 20,
     flags = Num 1024,
     method = Num 8,
     lastModified = now,
     crc32 = Num 0,
     compressedSize = Num 0,
     uncompressedSize = Num 0,
     fileNameBytes = [],
     extraFieldBytes = [] \<rparr>"

text \<open>
  \<^verbatim>\<open>from(cursor)\<close> creates a record and assigns every field from the reads, in this order.
\<close>

definition LocalFileHeader_from :: "cursor \<Rightarrow> error + (LocalFileHeader \<times> cursor)" where
  "LocalFileHeader_from c0 =
     bindE (readAsUint c0) (\<lambda>(sig, c1).
     bindE (readAsUshort c1) (\<lambda>(vn, c2).
     bindE (readAsUshort c2) (\<lambda>(fl, c3).
     bindE (readAsUshort c3) (\<lambda>(me, c4).
     bindE (readAsUint c4) (\<lambda>(lm, c5).
     bindE (readAsUint c5) (\<lambda>(crc, c6).
     bindE (readAsUint c6) (\<lambda>(cs, c7).
     bindE (readAsUint c7) (\<lambda>(us, c8).
     bindE (readAsUshort c8) (\<lambda>(fileNameLength, c9).
     bindE (readAsUshort c9) (\<lambda>(extraFieldLength, c10).
     bindE (subarray c10 fileNameLength) (\<lambda>(fnb, c11).
     bindE (subarray c11 extraFieldLength) (\<lambda>(efb, c12).
     Inr (\<lparr> signature = sig, versionNeeded = vn, flags = fl, method = me,
            lastModified = fromInt lm, crc32 = crc, compressedSize = cs,
            uncompressedSize = us, fileNameBytes = fnb, extraFieldBytes = efb \<rparr>,
          c12)))))))))))))"

definition LocalFileHeader_toBytes :: "'a LocalFileHeader_scheme \<Rightarrow> error + byte list" where
  "LocalFileHeader_toBytes r =
     (let fileNameLength = length (fileNameBytes r);
          extraFieldLength = length (extraFieldBytes r);
          c0 = new_cursor (replicate (30 + fileNameLength + extraFieldLength) 0)
      in
     bindE (writeInt c0 (signature r)) (\<lambda>c1.
     bindE (writeUshort c1 (versionNeeded r)) (\<lambda>c2.
     bindE (writeUshort c2 (flags r)) (\<lambda>c3.
     bindE (writeUshort c3 (method r)) (\<lambda>c4.
     bindE (writeInt c4 (toInt (lastModified r))) (\<lambda>c5.
     bindE (writeInt c5 (crc32 r)) (\<lambda>c6.
     bindE (writeInt c6 (compressedSize r)) (\<lambda>c7.
     bindE (writeInt c7 (uncompressedSize r)) (\<lambda>c8.
     bindE (writeUshort c8 (Num (int fileNameLength))) (\<lambda>c9.
     bindE (writeUshort c9 (Num (int extraFieldLength))) (\<lambda>c10.
     bindE (set_bytes c10 (fileNameBytes r)) (\<lambda>c11.
     bindE (set_bytes c11 (extraFieldBytes r)) (\<lambda>c12.
     Inr (bytes c12))))))))))))))"

text \<open>\<^verbatim>\<open>getFlag(i) { return (this.flags >> i & 1) === 1; }\<close> and \<^verbatim>\<open>setFlag(i, b)\<close>.\<close>

definition getFlag :: "'a LocalFileHeader_scheme \<Rightarrow> nat \<Rightarrow> bool" where
  "getFlag r i = (js_and (js_shr (flags r) i) (Num 1) = Num 1)"

definition setFlag :: "'a LocalFileHeader_scheme \<Rightarrow> nat \<Rightarrow> bool \<Rightarrow> 'a LocalFileHeader_scheme" where
  "setFlag r i b =
     (let v = js_shl (Num 1) i
      in if b then r\<lparr>flags := js_or (flags r) v\<rparr>
         else r\<lparr>flags := js_and (flags r) (js_not v)\<rparr>)"

definition hasDataDescriptor :: "'a LocalFileHeader_scheme \<Rightarrow> bool" where
  "hasDataDescriptor r = getFlag r 3"

definition isUtf8 :: "'a LocalFileHeader_scheme \<Rightarrow> bool" where
  "isUtf8 r = getFlag r 11"

definition set_isUtf8 :: "'a LocalFileHeader_scheme \<Rightarrow> bool \<Rightarrow> 'a LocalFileHeader_scheme" where
  "set_isUtf8 r b = setFlag r 11 b"

section \<open>Class CentralDirectoryEntry\<close>

text \<open>
  The class extends \<^verbatim>\<open>LocalFileHeader\<close>: it inherits the fields, the initializers and the
  flag accessors, and overrides the signature's initializer. \<^verbatim>\<open>headerOffset\<close> has no
  initializer and is \<^verbatim>\<open>undefined\<close> until \<^verbatim>\<open>build\<close> or \<^verbatim>\<open>from\<close> assigns it.
\<close>

record CentralDirectoryEntry = LocalFileHeader +
  versionMadeBy :: number
  diskIdStart :: number
  internalAttributes :: number
  externalAttributes :: number
  headerOffset :: number
  commentBytes :: "byte list"

definition new_CentralDirectoryEntry :: "ZipDateTime \<Rightarrow> CentralDirectoryEntry" where
  "new_CentralDirectoryEntry now =
     LocalFileHeader.extend (new_LocalFileHeader now \<lparr>signature := Num 0x02014b50\<rparr>)
       (CentralDirectoryEntry.fields (Num 20) (Num 0) (Num 0) (Num 0) NaN [])"

definition CentralDirectoryEntry_from :: "cursor \<Rightarrow> error + (CentralDirectoryEntry \<times> cursor)" where
  "CentralDirectoryEntry_from c0 =
     bindE (readAsUint c0) (\<lambda>(sig, c1).
     bindE (readAsUshort c1) (\<lambda>(vm, c2).
     bindE (readAsUshort c2) (\<lambda>(vn, c3).
     bindE (readAsUshort c3) (\<lambda>(fl, c4).
     bindE (readAsUshort c4) (\<lambda>(me, c5).
     bindE (readAsUint c5) (\<lambda>(lm, c6).
     bindE (readAsUint c6) (\<lambda>(crc, c7).
     bindE (readAsUint c7) (\<lambda>(cs, c8).
     bindE (readAsUint c8) (\<lambda>(us, c9).
     bindE (readAsUshort c9) (\<lambda>(fileNameLength, c10).
     bindE (readAsUshort c10) (\<lambda>(extraFieldLength, c11).
     bindE (readAsUshort c11) (\<lambda>(commentLength, c12).
     bindE (readAsUshort c12) (\<lambda>(di, c13).
     bindE (readAsUshort c13) (\<lambda>(ia, c14).
     bindE (readAsUint c14) (\<lambda>(ea, c15).
     bindE (readAsUint c15) (\<lambda>(ho, c16).
     bindE (subarray c16 fileNameLength) (\<lambda>(fnb, c17).
     bindE (subarray c17 extraFieldLength) (\<lambda>(efb, c18).
     bindE (subarray c18 commentLength) (\<lambda>(cmb, c19).
     Inr (\<lparr> signature = sig, versionNeeded = vn, flags = fl, method = me,
            lastModified = fromInt lm, crc32 = crc, compressedSize = cs,
            uncompressedSize = us, fileNameBytes = fnb, extraFieldBytes = efb,
            versionMadeBy = vm, diskIdStart = di, internalAttributes = ia,
            externalAttributes = ea, headerOffset = ho, commentBytes = cmb \<rparr>,
          c19))))))))))))))))))))"

definition CentralDirectoryEntry_toBytes :: "CentralDirectoryEntry \<Rightarrow> error + byte list" where
  "CentralDirectoryEntry_toBytes r =
     (let fileNameLength = length (fileNameBytes r);
          extraFieldLength = length (extraFieldBytes r);
          commentLength = length (commentBytes r);
          c0 = new_cursor (replicate (46 + fileNameLength + extraFieldLength + commentLength) 0)
      in
     bindE (writeInt c0 (signature r)) (\<lambda>c1.
     bindE (writeUshort c1 (versionMadeBy r)) (\<lambda>c2.
     bindE (writeUshort c2 (versionNeeded r)) (\<lambda>c3.
     bindE (writeUshort c3 (flags r)) (\<lambda>c4.
     bindE (writeUshort c4 (method r)) (\<lambda>c5.
     bindE (writeInt c5 (toInt (lastModified r))) (\<lambda>c6.
     bindE (writeInt c6 (crc32 r)) (\<lambda>c7.
     bindE (writeInt c7 (compressedSize r)) (\<lambda>c8.
     bindE (writeInt c8 (uncompressedSize r)) (\<lambda>c9.
     bindE (writeUshort c9 (Num (int fileNameLength))) (\<lambda>c10.
     bindE (writeUshort c10 (Num (int extraFieldLength))) (\<lambda>c11.
     bindE (writeUshort c11 (Num (int commentLength))) (\<lambda>c12.
     bindE (writeUshort c12 (diskIdStart r)) (\<lambda>c13.
     bindE (writeUshort c13 (internalAttributes r)) (\<lambda>c14.
     bindE (writeInt c14 (externalAttributes r)) (\<lambda>c15.
     bindE (writeInt c15 (headerOffset r)) (\<lambda>c16.
     bindE (set_bytes c16 (fileNameBytes r)) (\<lambda>c17.
     bindE (set_bytes c17 (extraFieldBytes r)) (\<lambda>c18.
     bindE (set_bytes c18 (commentBytes r)) (\<lambda>c19.
     Inr (bytes c19)))))))))))))))))))))"

section \<open>Class EndOfCentralDirectoryRecord\<close>

text \<open>\<^verbatim>\<open>cdSize\<close> and \<^verbatim>\<open>cdOffset\<close> have no initializer; the comment starts empty here.\<close>

record EndOfCentralDirectoryRecord =
  signature :: number
  diskId :: number
  firstDiskId :: number
  numOfFiles :: number
  totalNumOfFiles :: number
  cdSize :: number
  cdOffset :: number
  commentBytes :: "byte list"

definition new_EndOfCentralDirectoryRecord :: EndOfCentralDirectoryRecord where
  "new_EndOfCentralDirectoryRecord = \<lparr>
     signature = Num 0x06054b50,
     diskId = Num 0,
     firstDiskId = Num 0,
     numOfFiles = Num 1,
     totalNumOfFiles = Num 0,
     cdSize = NaN,
     cdOffset = NaN,
     commentBytes = [] \<rparr>"

definition EndOfCentralDirectoryRecord_from ::
  "cursor \<Rightarrow> error + (EndOfCentralDirectoryRecord \<times> cursor)" where
  "EndOfCentralDirectoryRecord_from c0 =
     bindE (readAsUint c0) (\<lambda>(sig, c1).
     bindE (readAsUshort c1) (\<lambda>(di, c2).
     bindE (readAsUshort c2) (\<lambda>(fd, c3).
     bindE (readAsUshort c3) (\<lambda>(nf, c4).
     bindE (readAsUshort c4) (\<lambda>(tn, c5).
     bindE (readAsUint c5) (\<lambda>(sz, c6).
     bindE (readAsUint c6) (\<lambda>(off, c7).
     bindE (readAsUshort c7) (\<lambda>(commentLength, c8).
     bindE (subarray c8 commentLength) (\<lambda>(cmb, c9).
     Inr (\<lparr> signature = sig, diskId = di, firstDiskId = fd, numOfFiles = nf,
            totalNumOfFiles = tn, cdSize = sz, cdOffset = off, commentBytes = cmb \<rparr>,
          c9))))))))))"

definition EndOfCentralDirectoryRecord_toBytes ::
  "EndOfCentralDirectoryRecord \<Rightarrow> error + byte list" where
  "EndOfCentralDirectoryRecord_toBytes r =
     (let commentLength = length (EndOfCentralDirectoryRecord.commentBytes r);
          c0 = new_cursor (replicate (22 + commentLength) 0)
      in
     bindE (writeInt c0 (EndOfCentralDirectoryRecord.signature r)) (\<lambda>c1.
     bindE (writeUshort c1 (diskId r)) (\<lambda>c2.
     bindE (writeUshort c2 (firstDiskId r)) (\<lambda>c3.
     bindE (writeUshort c3 (numOfFiles r)) (\<lambda>c4.
     bindE (writeUshort c4 (totalNumOfFiles r)) (\<lambda>c5.
     bindE (writeInt c5 (cdSize r)) (\<lambda>c6.
     bindE (writeInt c6 (cdOffset r)) (\<lambda>c7.
     bindE (writeUshort c7 (Num (int commentLength))) (\<lambda>c8.
     bindE (set_bytes c8 (EndOfCentralDirectoryRecord.commentBytes r)) (\<lambda>c9.
     Inr (bytes c9)))))))))))"

section \<open>The host\<close>

text \<open>
  The services of the runtime that the module calls and does not implement:
  \<^verbatim>\<open>TextEncoder.encode\<close>, \<^verbatim>\<open>TextDecoder.decode\<close>, and the streams
  \<^verbatim>\<open>CompressionStream('deflate-raw')\<close> and \<^verbatim>\<open>DecompressionStream('deflate-raw')\<close>, each
  as the function from the bytes it is given to the bytes it delivers (\<open>None\<close>: the
  decompression stream fails).
\<close>

record host =
  utf8_encode :: "string \<Rightarrow> byte list"
  utf8_decode :: "byte list \<Rightarrow> string"
  deflate_raw :: "byte list \<Rightarrow> byte list"
  inflate_raw :: "byte list \<Rightarrow> byte list option"

text \<open>\<^verbatim>\<open>textEncoder.encode(s)\<close> with \<open>s\<close> possibly \<^verbatim>\<open>undefined\<close>, which encodes to no bytes.\<close>

definition encode_opt :: "host \<Rightarrow> string option \<Rightarrow> byte list" where
  "encode_opt h s = (case s of None \<Rightarrow> [] | Some t \<Rightarrow> utf8_encode h t)"

section \<open>Class Builder\<close>

record content =
  header :: LocalFileHeader
  body :: "byte list"

record Builder =
  centralDirectory :: "CentralDirectoryEntry list"
  contents :: "content list"

definition new_Builder :: Builder where
  "new_Builder = \<lparr>centralDirectory = [], contents = []\<rparr>"

text \<open>
  The second argument of \<^verbatim>\<open>append\<close>: a path, or the options object. The option
  \<^verbatim>\<open>lastModified\<close> and the clock reach the entry only through
  \<^verbatim>\<open>ZipDateTime.fromDate(options.lastModified ? new Date(options.lastModified) : new Date())\<close>,
  whose result is the argument \<open>dt\<close> of \<open>append\<close> below.
\<close>

record ZipBuilderAppendOptions =
  filepath :: string
  "method" :: "number option"
  extraField :: "byte list option"
  comment :: "string option"

datatype append_opt = Path string | Options ZipBuilderAppendOptions

definition append ::
  "host \<Rightarrow> ZipDateTime \<Rightarrow> Builder \<Rightarrow> byte list \<Rightarrow> append_opt \<Rightarrow> error + (nat \<times> Builder)" where
  "append h dt st buf opt =
     (let uncompressed = buf;
          options = (case opt of
              Path p \<Rightarrow> \<lparr>filepath = p, method = None, extraField = None, comment = None\<rparr>
            | Options ob \<Rightarrow> ob);
          cd = new_CentralDirectoryEntry dt;
          header = new_LocalFileHeader dt;
          method = (case ZipBuilderAppendOptions.method options of None \<Rightarrow> Num 8 | Some m \<Rightarrow> m);
          vn = (if method = Num 8 then Num 20 else Num 10);
          header = header\<lparr>versionNeeded := vn\<rparr>;
          cd = cd\<lparr>versionNeeded := vn\<rparr>;
          cd = cd\<lparr>versionMadeBy := Num 20\<rparr>;
          header = header\<lparr>LocalFileHeader.method := method\<rparr>;
          cd = cd\<lparr>LocalFileHeader.method := method\<rparr>;
          header = header\<lparr>lastModified := dt\<rparr>;
          cd = cd\<lparr>lastModified := dt\<rparr>;
          header = set_isUtf8 header True;
          cd = set_isUtf8 cd True;
          fileNameBytes = utf8_encode h (filepath options);
          header = header\<lparr>fileNameBytes := fileNameBytes\<rparr>;
          cd = cd\<lparr>fileNameBytes := fileNameBytes\<rparr>;
          ef = (case extraField options of None \<Rightarrow> [] | Some e \<Rightarrow> e);
          header = header\<lparr>extraFieldBytes := ef\<rparr>;
          cd = cd\<lparr>extraFieldBytes := ef\<rparr>;
          cd = cd\<lparr>CentralDirectoryEntry.commentBytes := encode_opt h (comment options)\<rparr>;
          crc = calc uncompressed;
          header = header\<lparr>crc32 := crc\<rparr>;
          cd = cd\<lparr>crc32 := crc\<rparr>;
          header = header\<lparr>uncompressedSize := Num (int (length uncompressed))\<rparr>;
          cd = cd\<lparr>uncompressedSize := Num (int (length uncompressed))\<rparr>
      in
        if method = Num 0 then
          (let header = header\<lparr>compressedSize := Num (int (length uncompressed))\<rparr>;
               cd = cd\<lparr>compressedSize := Num (int (length uncompressed))\<rparr>;
               st1 = st\<lparr>centralDirectory := centralDirectory st @ [cd]\<rparr>;
               st2 = st1\<lparr>contents := contents st1 @ [\<lparr>header = header, body = uncompressed\<rparr>]\<rparr>
           in Inr (length (contents st2), st2))
        else if method = Num 8 then
          (let compressed = deflate_raw h uncompressed;
               header = header\<lparr>compressedSize := Num (int (length compressed))\<rparr>;
               cd = cd\<lparr>compressedSize := Num (int (length compressed))\<rparr>;
               st1 = st\<lparr>centralDirectory := centralDirectory st @ [cd]\<rparr>;
               st2 = st1\<lparr>contents := contents st1 @ [\<lparr>header = header, body = compressed\<rparr>]\<rparr>
           in Inr (length (contents st2), st2))
        else Inl (UnsupportedMethod method))"

text \<open>
  \<^verbatim>\<open>Array.prototype.splice(start, deleteCount)\<close>: the start is relative and clamped as
  for \<^verbatim>\<open>subarray\<close>; the count is clamped to what is left. It returns the removed elements
  and leaves the others in the array.
\<close>

definition splice :: "'a list \<Rightarrow> number \<Rightarrow> number \<Rightarrow> 'a list \<times> 'a list" where
  "splice xs start deleteCount =
     (let actualStart = rel_index start (length xs);
          dc = (case deleteCount of Num k \<Rightarrow> k | NaN \<Rightarrow> 0);
          actualDeleteCount = nat (min (max dc 0) (int (length xs) - int actualStart))
      in (take actualDeleteCount (drop actualStart xs),
          take actualStart xs @ drop (actualStart + actualDeleteCount) xs))"

text \<open>\<^verbatim>\<open>remove(index, count = 1)\<close>: \<open>None\<close> is the omitted count.\<close>

definition remove :: "host \<Rightarrow> Builder \<Rightarrow> number \<Rightarrow> number option \<Rightarrow> string list \<times> Builder" where
  "remove h st index count =
     (let count = (case count of None \<Rightarrow> Num 1 | Some k \<Rightarrow> k);
          (cd, rest) = splice (centralDirectory st) index count;
          st1 = st\<lparr>centralDirectory := rest\<rparr>;
          st2 = st1\<lparr>contents := snd (splice (contents st1) index (Num 1))\<rparr>
      in (map (\<lambda>entry. utf8_decode h (fileNameBytes entry)) cd, st2))"

text \<open>
  The loop of \<^verbatim>\<open>build\<close>, at index \<open>i\<close> with the contents from \<open>i\<close> on: it assigns
  \<^verbatim>\<open>this.centralDirectory[i].headerOffset\<close> (a \<^verbatim>\<open>TypeError\<close> when there is no such
  entry), pushes the header's bytes and the body, and advances the offset \<open>off\<close>.
\<close>

fun build_loop ::
  "content list \<Rightarrow> nat \<Rightarrow> CentralDirectoryEntry list \<Rightarrow> int \<Rightarrow> byte list list
     \<Rightarrow> error + (CentralDirectoryEntry list \<times> int \<times> byte list list)" where
  "build_loop [] i cds off blobPart = Inr (cds, off, blobPart)"
| "build_loop (ct # rest) i cds off blobPart =
     (if i < length cds then
        (let cds1 = cds[i := (cds ! i)\<lparr>headerOffset := Num off\<rparr>]
         in bindE (LocalFileHeader_toBytes (header ct)) (\<lambda>headerBytes.
              build_loop rest (Suc i) cds1
                (off + int (length headerBytes) + int (length (body ct)))
                (blobPart @ [headerBytes, body ct])))
      else Inl TypeError)"

fun mapE :: "('a \<Rightarrow> error + 'b) \<Rightarrow> 'a list \<Rightarrow> error + 'b list" where
  "mapE f [] = Inr []"
| "mapE f (x # xs) = bindE (f x) (\<lambda>y. bindE (mapE f xs) (\<lambda>ys. Inr (y # ys)))"

text \<open>
  \<^verbatim>\<open>build(options)\<close>; \<open>cmt\<close> is \<^verbatim>\<open>options?.comment\<close>. The result is the bytes of the
  Blob, with the EOCD record that was serialized into it and the Builder after the call
  (the loop has assigned the offsets of its directory entries).
\<close>

definition build ::
  "host \<Rightarrow> Builder \<Rightarrow> string option
     \<Rightarrow> error + (byte list \<times> EndOfCentralDirectoryRecord \<times> Builder)" where
  "build h st cmt =
     (let len = length (contents st)
      in
     bindE (build_loop (contents st) 0 (centralDirectory st) 0 []) (\<lambda>(cds, offset, blobPart).
     bindE (mapE CentralDirectoryEntry_toBytes cds) (\<lambda>cdBytes.
       (let eocd = new_EndOfCentralDirectoryRecord
              \<lparr> numOfFiles := Num (int len),
                totalNumOfFiles := Num (int len),
                cdSize := Num (foldl (\<lambda>a c. a + int (length c)) 0 cdBytes),
                cdOffset := Num offset,
                EndOfCentralDirectoryRecord.commentBytes := encode_opt h cmt \<rparr>
        in
     bindE (EndOfCentralDirectoryRecord_toBytes eocd) (\<lambda>eocdBytes.
     Inr (concat (blobPart @ cdBytes @ [eocdBytes]), eocd, st\<lparr>centralDirectory := cds\<rparr>))))))"

section \<open>Class Extractor\<close>

record Extractor =
  eocd :: EndOfCentralDirectoryRecord
  centralDirectory :: "CentralDirectoryEntry list"
  contents :: "content list"

text \<open>
  The predicate of the scan,
  \<^verbatim>\<open>(_, i, a) => [0x50, 0x4b, 5, 6].every((v, j) => v === a[i + j])\<close>, and
  \<^verbatim>\<open>findLastIndex\<close>, which tries the indices below \<open>n\<close> from the last one down and
  gives \<open>-1\<close> when none satisfies the predicate.
\<close>

definition sig_match :: "byte list \<Rightarrow> nat \<Rightarrow> bool" where
  "sig_match a i =
     (Num 0x50 = byte_at a (int i) \<and> Num 0x4b = byte_at a (int i + 1) \<and>
      Num 5 = byte_at a (int i + 2) \<and> Num 6 = byte_at a (int i + 3))"

fun findLastIndex :: "(nat \<Rightarrow> bool) \<Rightarrow> nat \<Rightarrow> int" where
  "findLastIndex p 0 = - 1"
| "findLastIndex p (Suc k) = (if p k then int k else findLastIndex p k)"

text \<open>\<^verbatim>\<open>Array.from({ length: n }, f)\<close> calls \<open>f\<close> \<open>n\<close> times; a length \<open>NaN\<close> or below 0 is 0.\<close>

definition array_length :: "number \<Rightarrow> nat" where
  "array_length n = (case n of Num k \<Rightarrow> nat k | NaN \<Rightarrow> 0)"

fun read_entries :: "nat \<Rightarrow> cursor \<Rightarrow> error + (CentralDirectoryEntry list \<times> cursor)" where
  "read_entries 0 c = Inr ([], c)"
| "read_entries (Suc n) c =
     bindE (CentralDirectoryEntry_from c) (\<lambda>(e, c1).
     bindE (read_entries n c1) (\<lambda>(es, c2). Inr (e # es, c2)))"

text \<open>The callback of \<^verbatim>\<open>this.centralDirectory.map\<close> in the constructor.\<close>

definition read_content :: "cursor \<Rightarrow> CentralDirectoryEntry \<Rightarrow> error + (content \<times> cursor)" where
  "read_content cursor record =
     bindE (moveTo cursor (headerOffset record)) (\<lambda>c1.
     bindE (LocalFileHeader_from c1) (\<lambda>(header, c2).
     bindE (subarray c2 (compressedSize record)) (\<lambda>(body, c3).
       if hasDataDescriptor header then
         bindE (readAsInt c3) (\<lambda>(maySignature, c4).
         bindE (if maySignature = Num 0x08074b50 then readAsInt c4 else Inr (maySignature, c4))
           (\<lambda>(crc, c5).
         bindE (readAsInt c5) (\<lambda>(cs, c6).
         bindE (readAsInt c6) (\<lambda>(us, c7).
         Inr (\<lparr>header = header\<lparr>crc32 := crc, compressedSize := cs, uncompressedSize := us\<rparr>,
               body = body\<rparr>, c7)))))
       else Inr (\<lparr>header = header, body = body\<rparr>, c3))))"

fun read_contents :: "cursor \<Rightarrow> CentralDirectoryEntry list \<Rightarrow> error + (content list \<times> cursor)" where
  "read_contents c [] = Inr ([], c)"
| "read_contents c (record # rest) =
     bindE (read_content c record) (\<lambda>(ct, c1).
     bindE (read_contents c1 rest) (\<lambda>(cts, c2). Inr (ct # cts, c2)))"

text \<open>The constructor, from the bytes of the buffer.\<close>

definition new_Extractor :: "byte list \<Rightarrow> error + Extractor" where
  "new_Extractor buffer =
     (let cursor = new_cursor buffer;
          offsetEocd = findLastIndex (sig_match buffer) (length buffer)
      in
     bindE (moveTo cursor (Num offsetEocd)) (\<lambda>c1.
     bindE (EndOfCentralDirectoryRecord_from c1) (\<lambda>(eocd, c2).
     bindE (moveTo c2 (cdOffset eocd)) (\<lambda>c3.
     bindE (read_entries (array_length (numOfFiles eocd)) c3) (\<lambda>(centralDirectory, c4).
     bindE (read_contents c4 centralDirectory) (\<lambda>(contents, c5).
     Inr \<lparr>eocd = eocd, centralDirectory = centralDirectory, contents = contents\<rparr>))))))"

text \<open>
  \<^verbatim>\<open>Array.prototype.at(index)\<close>: an index below zero counts from the end; \<open>NaN\<close> is 0;
  \<^verbatim>\<open>undefined\<close> (\<open>None\<close>) outside the array.
\<close>

definition array_at :: "'a list \<Rightarrow> number \<Rightarrow> 'a option" where
  "array_at xs index =
     (let i = (case index of Num i \<Rightarrow> i | NaN \<Rightarrow> 0);
          k = (if 0 \<le> i then i else int (length xs) + i)
      in if 0 \<le> k \<and> k < int (length xs) then Some (xs ! nat k) else None)"

text \<open>
  \<^verbatim>\<open>pick(index)\<close>. The \<^verbatim>\<open>Response\<close> is represented by the bytes its body delivers
  (\<open>None\<close> when the decompression stream fails). The method assigns to no field of the
  Extractor; the second component is the Extractor after the call.
\<close>

definition pick :: "host \<Rightarrow> Extractor \<Rightarrow> number \<Rightarrow> (error + byte list option) \<times> Extractor" where
  "pick h this index =
     (case array_at (Extractor.contents this) index of
        None \<Rightarrow> (Inl (NoContent_at index), this)
      | Some content \<Rightarrow>
          if LocalFileHeader.method (header content) = Num 0 then (Inr (Some (body content)), this)
          else if LocalFileHeader.method (header content) = Num 8 then (Inr (inflate_raw h (body content)), this)
          else (Inl (UnsupportedMethod (LocalFileHeader.method (header content))), this))"

section \<open>The byte layout, for the statements\<close>

text \<open>
  What the statements below say about bytes is written with the following functions.
  They follow the archive format of the specification (little-endian fields in the
  order of the three records), not the cursor code: \<open>u16le\<close> and \<open>u32le\<close> are the two
  and four bytes of a field, \<open>le16\<close> and \<open>le32\<close> the unsigned value of the bytes at an
  index, \<open>le32s\<close> the same four bytes read as a signed 32-bit value.
\<close>

definition u16le :: "number \<Rightarrow> byte list" where
  "u16le v = [ucast (toInt32 v), ucast (drop_bit 8 (toInt32 v))]"

definition u32le :: "number \<Rightarrow> byte list" where
  "u32le v = [ucast (toInt32 v), ucast (drop_bit 8 (toInt32 v)),
              ucast (drop_bit 16 (toInt32 v)), ucast (drop_bit 24 (toInt32 v))]"

definition le16 :: "byte list \<Rightarrow> nat \<Rightarrow> int" where
  "le16 bs n = uint (bs ! n) + 256 * uint (bs ! (n + 1))"

definition le32 :: "byte list \<Rightarrow> nat \<Rightarrow> int" where
  "le32 bs n = uint (bs ! n) + 256 * uint (bs ! (n + 1)) + 65536 * uint (bs ! (n + 2)) +
               16777216 * uint (bs ! (n + 3))"

definition le32s :: "byte list \<Rightarrow> nat \<Rightarrow> int" where
  "le32s bs n = sint (word_of_int (le32 bs n) :: 32 word)"

text \<open>The number that comes back from the two or four bytes written for a number.\<close>

definition as_uint16 :: "number \<Rightarrow> number" where
  "as_uint16 v = Num (uint (toInt32 v) mod 65536)"

definition as_uint32 :: "number \<Rightarrow> number" where
  "as_uint32 v = Num (uint (toInt32 v))"

text \<open>
  A cursor has room for \<open>n\<close> more bytes; and the cursor after \<open>xs\<close> has been written at
  its offset.
\<close>

definition fits :: "cursor \<Rightarrow> nat \<Rightarrow> bool" where
  "fits c n = (0 \<le> offset c \<and> nat (offset c) + n \<le> length (bytes c))"

definition put :: "cursor \<Rightarrow> byte list \<Rightarrow> cursor" where
  "put c xs = \<lparr>bytes = take (nat (offset c)) (bytes c) @ xs @
                         drop (nat (offset c) + length xs) (bytes c),
               offset = offset c + int (length xs)\<rparr>"

text \<open>The local file header: its bytes, and the header that the bytes at an index denote.\<close>

definition LocalFileHeader_bytes :: "'a LocalFileHeader_scheme \<Rightarrow> byte list" where
  "LocalFileHeader_bytes r =
     u32le (LocalFileHeader.signature r) @ u16le (versionNeeded r) @ u16le (flags r) @
     u16le (LocalFileHeader.method r) @ u32le (toInt (lastModified r)) @ u32le (crc32 r) @
     u32le (compressedSize r) @ u32le (uncompressedSize r) @
     u16le (Num (int (length (fileNameBytes r)))) @ u16le (Num (int (length (extraFieldBytes r)))) @
     fileNameBytes r @ extraFieldBytes r"

definition LocalFileHeader_size :: "byte list \<Rightarrow> nat \<Rightarrow> nat" where
  "LocalFileHeader_size bs n = 30 + nat (le16 bs (n + 26)) + nat (le16 bs (n + 28))"

definition LocalFileHeader_at :: "byte list \<Rightarrow> nat \<Rightarrow> LocalFileHeader" where
  "LocalFileHeader_at bs n = \<lparr>
     LocalFileHeader.signature = Num (le32 bs n),
     versionNeeded = Num (le16 bs (n + 4)),
     flags = Num (le16 bs (n + 6)),
     LocalFileHeader.method = Num (le16 bs (n + 8)),
     lastModified = fromInt (Num (le32 bs (n + 10))),
     crc32 = Num (le32 bs (n + 14)),
     compressedSize = Num (le32 bs (n + 18)),
     uncompressedSize = Num (le32 bs (n + 22)),
     fileNameBytes = take (nat (le16 bs (n + 26))) (drop (n + 30) bs),
     extraFieldBytes = take (nat (le16 bs (n + 28))) (drop (n + 30 + nat (le16 bs (n + 26))) bs) \<rparr>"

text \<open>The record as it comes back from its own bytes: every number reduced to its field.\<close>

definition LocalFileHeader_read_back :: "'a LocalFileHeader_scheme \<Rightarrow> LocalFileHeader" where
  "LocalFileHeader_read_back r = \<lparr>
     LocalFileHeader.signature = as_uint32 (LocalFileHeader.signature r),
     versionNeeded = as_uint16 (versionNeeded r),
     flags = as_uint16 (flags r),
     LocalFileHeader.method = as_uint16 (LocalFileHeader.method r),
     lastModified = fromInt (toInt (lastModified r)),
     crc32 = as_uint32 (crc32 r),
     compressedSize = as_uint32 (compressedSize r),
     uncompressedSize = as_uint32 (uncompressedSize r),
     fileNameBytes = fileNameBytes r,
     extraFieldBytes = extraFieldBytes r \<rparr>"

text \<open>The same for the central directory entry.\<close>

definition CentralDirectoryEntry_bytes :: "CentralDirectoryEntry \<Rightarrow> byte list" where
  "CentralDirectoryEntry_bytes r =
     u32le (LocalFileHeader.signature r) @ u16le (versionMadeBy r) @ u16le (versionNeeded r) @
     u16le (flags r) @ u16le (LocalFileHeader.method r) @ u32le (toInt (lastModified r)) @
     u32le (crc32 r) @ u32le (compressedSize r) @ u32le (uncompressedSize r) @
     u16le (Num (int (length (fileNameBytes r)))) @ u16le (Num (int (length (extraFieldBytes r)))) @
     u16le (Num (int (length (CentralDirectoryEntry.commentBytes r)))) @
     u16le (diskIdStart r) @ u16le (internalAttributes r) @ u32le (externalAttributes r) @
     u32le (headerOffset r) @
     fileNameBytes r @ extraFieldBytes r @ CentralDirectoryEntry.commentBytes r"

definition CentralDirectoryEntry_size :: "byte list \<Rightarrow> nat \<Rightarrow> nat" where
  "CentralDirectoryEntry_size bs n =
     46 + nat (le16 bs (n + 28)) + nat (le16 bs (n + 30)) + nat (le16 bs (n + 32))"

definition CentralDirectoryEntry_at :: "byte list \<Rightarrow> nat \<Rightarrow> CentralDirectoryEntry" where
  "CentralDirectoryEntry_at bs n = \<lparr>
     LocalFileHeader.signature = Num (le32 bs n),
     versionNeeded = Num (le16 bs (n + 6)),
     flags = Num (le16 bs (n + 8)),
     LocalFileHeader.method = Num (le16 bs (n + 10)),
     lastModified = fromInt (Num (le32 bs (n + 12))),
     crc32 = Num (le32 bs (n + 16)),
     compressedSize = Num (le32 bs (n + 20)),
     uncompressedSize = Num (le32 bs (n + 24)),
     fileNameBytes = take (nat (le16 bs (n + 28))) (drop (n + 46) bs),
     extraFieldBytes = take (nat (le16 bs (n + 30))) (drop (n + 46 + nat (le16 bs (n + 28))) bs),
     versionMadeBy = Num (le16 bs (n + 4)),
     diskIdStart = Num (le16 bs (n + 34)),
     internalAttributes = Num (le16 bs (n + 36)),
     externalAttributes = Num (le32 bs (n + 38)),
     headerOffset = Num (le32 bs (n + 42)),
     CentralDirectoryEntry.commentBytes =
       take (nat (le16 bs (n + 32)))
         (drop (n + 46 + nat (le16 bs (n + 28)) + nat (le16 bs (n + 30))) bs) \<rparr>"

definition CentralDirectoryEntry_read_back :: "CentralDirectoryEntry \<Rightarrow> CentralDirectoryEntry" where
  "CentralDirectoryEntry_read_back r = \<lparr>
     LocalFileHeader.signature = as_uint32 (LocalFileHeader.signature r),
     versionNeeded = as_uint16 (versionNeeded r),
     flags = as_uint16 (flags r),
     LocalFileHeader.method = as_uint16 (LocalFileHeader.method r),
     lastModified = fromInt (toInt (lastModified r)),
     crc32 = as_uint32 (crc32 r),
     compressedSize = as_uint32 (compressedSize r),
     uncompressedSize = as_uint32 (uncompressedSize r),
     fileNameBytes = fileNameBytes r,
     extraFieldBytes = extraFieldBytes r,
     versionMadeBy = as_uint16 (versionMadeBy r),
     diskIdStart = as_uint16 (diskIdStart r),
     internalAttributes = as_uint16 (internalAttributes r),
     externalAttributes = as_uint32 (externalAttributes r),
     headerOffset = as_uint32 (headerOffset r),
     CentralDirectoryEntry.commentBytes = CentralDirectoryEntry.commentBytes r \<rparr>"

text \<open>And for the end of central directory record.\<close>

definition EndOfCentralDirectoryRecord_bytes :: "EndOfCentralDirectoryRecord \<Rightarrow> byte list" where
  "EndOfCentralDirectoryRecord_bytes r =
     u32le (EndOfCentralDirectoryRecord.signature r) @ u16le (diskId r) @ u16le (firstDiskId r) @
     u16le (numOfFiles r) @ u16le (totalNumOfFiles r) @ u32le (cdSize r) @ u32le (cdOffset r) @
     u16le (Num (int (length (EndOfCentralDirectoryRecord.commentBytes r)))) @
     EndOfCentralDirectoryRecord.commentBytes r"

definition EndOfCentralDirectoryRecord_size :: "byte list \<Rightarrow> nat \<Rightarrow> nat" where
  "EndOfCentralDirectoryRecord_size bs n = 22 + nat (le16 bs (n + 20))"

definition EndOfCentralDirectoryRecord_at :: "byte list \<Rightarrow> nat \<Rightarrow> EndOfCentralDirectoryRecord" where
  "EndOfCentralDirectoryRecord_at bs n = \<lparr>
     EndOfCentralDirectoryRecord.signature = Num (le32 bs n),
     diskId = Num (le16 bs (n + 4)),
     firstDiskId = Num (le16 bs (n + 6)),
     numOfFiles = Num (le16 bs (n + 8)),
     totalNumOfFiles = Num (le16 bs (n + 10)),
     cdSize = Num (le32 bs (n + 12)),
     cdOffset = Num (le32 bs (n + 16)),
     EndOfCentralDirectoryRecord.commentBytes = take (nat (le16 bs (n + 20))) (drop (n + 22) bs) \<rparr>"

definition EndOfCentralDirectoryRecord_read_back ::
  "EndOfCentralDirectoryRecord \<Rightarrow> EndOfCentralDirectoryRecord" where
  "EndOfCentralDirectoryRecord_read_back r = \<lparr>
     EndOfCentralDirectoryRecord.signature = as_uint32 (EndOfCentralDirectoryRecord.signature r),
     diskId = as_uint16 (diskId r),
     firstDiskId = as_uint16 (firstDiskId r),
     numOfFiles = as_uint16 (numOfFiles r),
     totalNumOfFiles = as_uint16 (totalNumOfFiles r),
     cdSize = as_uint32 (cdSize r),
     cdOffset = as_uint32 (cdOffset r),
     EndOfCentralDirectoryRecord.commentBytes = EndOfCentralDirectoryRecord.commentBytes r \<rparr>"

text \<open>Numbers that fit an unsigned field of 16 or 32 bits, and records made of them.\<close>

definition uint16 :: "number \<Rightarrow> bool" where
  "uint16 v = (case v of Num x \<Rightarrow> 0 \<le> x \<and> x < 65536 | NaN \<Rightarrow> False)"

definition uint32 :: "number \<Rightarrow> bool" where
  "uint32 v = (case v of Num x \<Rightarrow> 0 \<le> x \<and> x < 4294967296 | NaN \<Rightarrow> False)"

definition LocalFileHeader_in_range :: "'a LocalFileHeader_scheme \<Rightarrow> bool" where
  "LocalFileHeader_in_range r =
     (uint32 (LocalFileHeader.signature r) \<and> uint16 (versionNeeded r) \<and> uint16 (flags r) \<and>
      uint16 (LocalFileHeader.method r) \<and> uint32 (crc32 r) \<and> uint32 (compressedSize r) \<and>
      uint32 (uncompressedSize r) \<and>
      length (fileNameBytes r) < 65536 \<and> length (extraFieldBytes r) < 65536)"

definition CentralDirectoryEntry_in_range :: "CentralDirectoryEntry \<Rightarrow> bool" where
  "CentralDirectoryEntry_in_range r =
     (LocalFileHeader_in_range r \<and> uint16 (versionMadeBy r) \<and> uint16 (diskIdStart r) \<and>
      uint16 (internalAttributes r) \<and> uint32 (externalAttributes r) \<and>
      uint32 (headerOffset r) \<and> length (CentralDirectoryEntry.commentBytes r) < 65536)"

definition EndOfCentralDirectoryRecord_in_range :: "EndOfCentralDirectoryRecord \<Rightarrow> bool" where
  "EndOfCentralDirectoryRecord_in_range r =
     (uint32 (EndOfCentralDirectoryRecord.signature r) \<and> uint16 (diskId r) \<and>
      uint16 (firstDiskId r) \<and> uint16 (numOfFiles r) \<and> uint16 (totalNumOfFiles r) \<and>
      uint32 (cdSize r) \<and> uint32 (cdOffset r) \<and>
      length (EndOfCentralDirectoryRecord.commentBytes r) < 65536)"

section \<open>Values for the examples\<close>

text \<open>
  A host for the examples: it encodes a character as its code, and its compression
  reverses the bytes (so that a compressed body differs from the content).
\<close>

abbreviation example_host :: host where
  "example_host \<equiv> \<lparr>utf8_encode = map (\<lambda>c. word_of_nat (of_char c)),
     utf8_decode = map (\<lambda>b. char_of (unat b)),
     deflate_raw = rev, inflate_raw = (\<lambda>bs. Some (rev bs))\<rparr>"

abbreviation example_date :: ZipDateTime where
  "example_date \<equiv> \<lparr>year = Num 2024, month = Num 2, day = Num 29, hour = Num 13,
     minute = Num 37, second = Num 58\<rparr>"

text \<open>
  The header and the directory entry that \<^verbatim>\<open>append\<close> makes for the one-byte content
  \<open>0x61\<close> at the path \<open>''a''\<close> (method 0), and an EOCD record.
\<close>

abbreviation example_header :: LocalFileHeader where
  "example_header \<equiv> \<lparr>LocalFileHeader.signature = Num 0x04034b50, versionNeeded = Num 10,
     flags = Num 3072, LocalFileHeader.method = Num 0, lastModified = example_date,
     crc32 = calc [0x61], compressedSize = Num 1, uncompressedSize = Num 1,
     fileNameBytes = [0x61], extraFieldBytes = []\<rparr>"

abbreviation example_entry :: CentralDirectoryEntry where
  "example_entry \<equiv> \<lparr>LocalFileHeader.signature = Num 0x02014b50, versionNeeded = Num 10,
     flags = Num 3072, LocalFileHeader.method = Num 0, lastModified = example_date,
     crc32 = calc [0x61], compressedSize = Num 1, uncompressedSize = Num 1,
     fileNameBytes = [0x61], extraFieldBytes = [],
     versionMadeBy = Num 20, diskIdStart = Num 0, internalAttributes = Num 0,
     externalAttributes = Num 0, headerOffset = NaN,
     CentralDirectoryEntry.commentBytes = []\<rparr>"

abbreviation example_options :: append_opt where
  "example_options \<equiv> Options \<lparr>filepath = ''a'', method = Some (Num 0),
     extraField = None, comment = None\<rparr>"

abbreviation example_eocd :: EndOfCentralDirectoryRecord where
  "example_eocd \<equiv> \<lparr>EndOfCentralDirectoryRecord.signature = Num 0x06054b50, diskId = Num 0,
     firstDiskId = Num 0, numOfFiles = Num 1, totalNumOfFiles = Num 1, cdSize = Num 47,
     cdOffset = Num 32, EndOfCentralDirectoryRecord.commentBytes = []\<rparr>"

section \<open>Facts about numbers\<close>

lemma toInt32_Num [simp]: "toInt32 (Num x) = word_of_int x"
  by (simp add: toInt32_def)

lemma toInt32_NaN [simp]: "toInt32 NaN = 0"
  by (simp add: toInt32_def)

lemma toInt32_ops [simp]:
  "toInt32 (js_and a b) = toInt32 a AND toInt32 b"
  "toInt32 (js_xor a b) = toInt32 a XOR toInt32 b"
  "toInt32 (js_or a b) = toInt32 a OR toInt32 b"
  "toInt32 (js_ushr a n) = drop_bit (n mod 32) (toInt32 a)"
  "toInt32 (js_shl a n) = push_bit (n mod 32) (toInt32 a)"
  by (simp_all add: js_and_def js_xor_def js_or_def js_ushr_def js_shl_def)

lemma sint_eq_0 [simp]: "(sint (w :: 32 word) = 0) = (w = 0)"
  by (rule signed_eq_0_iff)

lemma sint_small:
  assumes "uint (w :: 32 word) < 2 ^ 31"
  shows "sint w = uint w"
proof -
  have "- (2 ^ 31) \<le> uint w"
    using uint_ge_0 [of w] by (simp add: order_trans [of _ 0])
  then have "signed_take_bit 31 (uint w) = uint w"
    using assms by (rule signed_take_bit_int_eq_self)
  then show ?thesis by (simp add: sint_uint)
qed

lemma uint_and_ff: "uint ((w :: 32 word) AND 0xff) < 256"
  using and_mask_lt_2p [of w 8] by (simp add: mask_eq_exp_minus_1)

lemma js_and_ff: "js_and x (Num 0xff) = Num (uint (toInt32 x AND 0xff))"
  using uint_and_ff [of "toInt32 x"] by (simp add: js_and_def sint_small)

section \<open>The checksum\<close>

lemma truthy_and1: "truthy (js_and c (Num 1)) = bit (toInt32 c) 0"
proof -
  have "(toInt32 c AND 1 \<noteq> 0) = bit (toInt32 c) 0"
    by (simp add: and_one_eq bit_0 mod_2_eq_odd)
  then show ?thesis by (simp add: js_and_def)
qed

lemma crc_rounds_word: "toInt32 (crc_rounds j c) = (crc_shift ^^ j) (toInt32 c)"
proof (induction j arbitrary: c)
  case 0
  show ?case by simp
next
  case (Suc j)
  let ?c' = "let mc = js_ushr c 1
             in if truthy (js_and c (Num 1)) then js_xor (Num 0xedb88320) mc else mc"
  have step: "toInt32 ?c' = crc_shift (toInt32 c)"
    by (simp add: Let_def truthy_and1 crc_shift_def xor.commute)
  have "toInt32 (crc_rounds (Suc j) c) = toInt32 (crc_rounds j ?c')"
    by simp
  also have "\<dots> = (crc_shift ^^ j) (crc_shift (toInt32 c))"
    by (simp only: Suc.IH step)
  finally show ?case by (simp only: funpow_Suc_right o_apply)
qed

lemma crc_shift_xor: "crc_shift (a XOR b) = crc_shift a XOR crc_shift b"
  by (simp add: crc_shift_def bit_xor_iff drop_bit_xor xor.assoc xor.left_commute)

lemma crc_shifts_xor: "(crc_shift ^^ k) (a XOR b) = (crc_shift ^^ k) a XOR (crc_shift ^^ k) b"
proof (induction k)
  case 0
  show ?case by simp
next
  case (Suc k)
  show ?case by (simp only: funpow.simps o_apply Suc.IH crc_shift_xor)
qed

lemma crc_shifts_high:
  "k \<le> 8 \<Longrightarrow> (crc_shift ^^ k) (push_bit 8 z) = drop_bit k (push_bit 8 z)"
proof (induction k)
  case 0
  show ?case by simp
next
  case (Suc k)
  then have "\<not> bit (drop_bit k (push_bit 8 z)) 0"
    by (simp add: bit_simps)
  with Suc show ?case
    by (simp add: crc_shift_def drop_bit_drop_bit)
qed

lemma split_low_byte: "(x AND 0xff) XOR push_bit 8 (drop_bit 8 x) = (x :: 32 word)"
proof (rule bit_word_eqI)
  fix n assume "n < LENGTH(32)"
  have m: "(0xff :: 32 word) = mask 8" by (simp add: mask_eq_exp_minus_1)
  show "bit ((x AND 0xff) XOR push_bit 8 (drop_bit 8 x)) n = bit x n"
    using \<open>n < LENGTH(32)\<close> unfolding m by (auto simp add: bit_simps)
qed

text \<open>One table lookup does the eight shifts of a byte.\<close>

lemma crc_table_step:
  "(crc_shift ^^ 8) x = (crc_shift ^^ 8) (x AND 0xff) XOR drop_bit 8 x"
proof -
  have "(crc_shift ^^ 8) x = (crc_shift ^^ 8) ((x AND 0xff) XOR push_bit 8 (drop_bit 8 x))"
    by (simp only: split_low_byte)
  also have "\<dots> = (crc_shift ^^ 8) (x AND 0xff) XOR (crc_shift ^^ 8) (push_bit 8 (drop_bit 8 x))"
    by (rule crc_shifts_xor)
  also have "(crc_shift ^^ 8) (push_bit 8 (drop_bit 8 x)) = drop_bit 8 (push_bit 8 (drop_bit 8 x))"
    by (rule crc_shifts_high) simp
  also have "\<dots> = drop_bit 8 x"
    by (rule bit_word_eqI) (auto simp add: bit_simps dest: bit_imp_le_length)
  finally show ?thesis .
qed

lemma crc_table_nth:
  "i < 256 \<Longrightarrow> crc_table ! i = uint ((crc_shift ^^ 8) (word_of_nat i))"
  by (simp add: crc_table_def crc_rounds_word del: crc_rounds.simps)

lemma table_at_word:
  "toInt32 (table_at (js_and x (Num 0xff))) = (crc_shift ^^ 8) (toInt32 x AND 0xff)"
proof -
  let ?w = "toInt32 x AND 0xff"
  have lt: "uint ?w < 256" by (rule uint_and_ff)
  then have n: "unat ?w < 256" by (simp add: unat_eq_nat_uint del: nat_uint_eq)
  have len: "length crc_table = 256" by (simp add: crc_table_def)
  have "table_at (js_and x (Num 0xff)) = Num (crc_table ! unat ?w)"
    using lt by (simp add: js_and_ff table_at_def len)
  also have "crc_table ! unat ?w = uint ((crc_shift ^^ 8) ?w)"
    using n by (simp add: crc_table_nth del: funpow.simps)
  finally show ?thesis by simp
qed

lemma drop_bit_8_ucast: "drop_bit 8 (ucast (b :: byte) :: 32 word) = 0"
  by (rule bit_word_eqI) (auto simp add: bit_simps dest: bit_imp_le_length)

lemma calc_step_word: "toInt32 (calc_step c b) = crc_byte (toInt32 c) b"
proof -
  let ?x = "toInt32 c XOR ucast b"
  have u: "toInt32 (Num (uint b)) = ucast b"
    by (simp only: toInt32_Num ucast_eq)
  have "toInt32 (calc_step c b) = (crc_shift ^^ 8) (?x AND 0xff) XOR drop_bit 8 (toInt32 c)"
    unfolding calc_step_def toInt32_ops table_at_word u by simp
  also have "drop_bit 8 (toInt32 c) = drop_bit 8 ?x"
    by (simp add: drop_bit_xor drop_bit_8_ucast)
  also have "(crc_shift ^^ 8) (?x AND 0xff) XOR drop_bit 8 ?x = (crc_shift ^^ 8) ?x"
    by (rule crc_table_step [symmetric])
  finally show ?thesis by (simp only: crc_byte_def)
qed

lemma calc_fold_word:
  "toInt32 (foldl calc_step c bs) = foldl crc_byte (toInt32 c) bs"
  by (induction bs arbitrary: c) (simp_all add: calc_step_word)

lemma calc_word: "calc bs = Num (sint (crc32_reference bs))"
  by (simp add: calc_def js_xor_def calc_fold_word crc32_reference_def)

lemma crc32_reference_a: "crc32_reference [0x61] = 0xE8B7BE43"
  by code_simp

text \<open>
  Claim C7, as the code has it. \<^verbatim>\<open>calc\<close> returns the standard reflected CRC-32 of the
  bytes (polynomial \<open>0xEDB88320\<close>, initial and final XOR \<open>0xFFFFFFFF\<close>) as the \<^emph>\<open>signed\<close>
  32-bit integer with those 32 bits, since its last operation is \<^verbatim>\<open>c ^ 0xffffffff\<close>;
  \<^verbatim>\<open>calc(bytes) >>> 0\<close> is the unsigned value; and \<^verbatim>\<open>calc\<close> of the empty sequence is 0.
\<close>

theorem calc_signed_crc32:
  "calc bs = Num (sint (crc32_reference bs)) \<and>
   js_ushr (calc bs) 0 = Num (uint (crc32_reference bs)) \<and>
   calc [] = Num 0"
  by (simp add: calc_word js_ushr_def crc32_reference_def)

text \<open>
  Claim C7 as the specification states it (the result is an unsigned 32-bit integer) fails
  for the one-byte input \<open>0x61\<close>: its CRC-32 is \<open>0xE8B7BE43 = 3904355907\<close>, and \<^verbatim>\<open>calc\<close>
  returns the negative number \<open>-390611389\<close>.
\<close>

theorem calc_not_unsigned:
  "calc [0x61] = Num (- 390611389) \<and> uint (crc32_reference [0x61]) = 3904355907"
  by (simp add: calc_word crc32_reference_a)

section \<open>The timestamp\<close>

lemma uint_drop_bit: "uint (drop_bit n (w :: 32 word)) = uint w div 2 ^ n"
proof -
  have "uint (drop_bit n w) = drop_bit n (take_bit LENGTH(32) (uint w))"
    by (rule unsigned_drop_bit_eq)
  also have "take_bit LENGTH(32) (uint w) = uint w"
    by (simp add: take_bit_int_eq_self_iff uint_bounded [where 'a = 32, simplified])
  finally show ?thesis by (simp add: drop_bit_eq_div)
qed

lemma sint_and_mask:
  assumes "n \<le> 31"
  shows "sint ((w :: 32 word) AND mask n) = uint w mod 2 ^ n"
proof -
  have "w AND mask n = take_bit n w"
    by (simp only: take_bit_eq_mask)
  then have "uint (w AND mask n) = take_bit n (uint w)"
    by (simp only: unsigned_take_bit_eq)
  then have eq: "uint (w AND mask n) = uint w mod 2 ^ n"
    by (simp only: take_bit_eq_mod)
  have lt: "uint w mod 2 ^ n < (2 :: int) ^ n"
    by simp
  have le: "(2 :: int) ^ n \<le> 2 ^ 31"
    using assms by (rule power_increasing) simp
  have "uint (w AND mask n) < 2 ^ 31"
    using eq lt le by linarith
  then have "sint (w AND mask n) = uint (w AND mask n)"
    by (rule sint_small)
  with eq show ?thesis by simp
qed

lemma js_ushr_Num: "n < 32 \<Longrightarrow> js_ushr v n = Num (uint (toInt32 v) div 2 ^ n)"
  by (simp add: js_ushr_def uint_drop_bit)

lemma js_and_masks:
  "js_and v (Num 15) = Num (uint (toInt32 v) mod 16)"
  "js_and v (Num 31) = Num (uint (toInt32 v) mod 32)"
  "js_and v (Num 63) = Num (uint (toInt32 v) mod 64)"
  using sint_and_mask [of 4 "toInt32 v"] sint_and_mask [of 5 "toInt32 v"]
    sint_and_mask [of 6 "toInt32 v"]
  by (simp_all add: js_and_def mask_eq_exp_minus_1)

lemma toInt_word:
  assumes "year t = Num y" "month t = Num mo" "day t = Num d" "hour t = Num h"
    "minute t = Num mi" "second t = Num s"
  shows "toInt32 (toInt t) =
    word_of_int ((y - 1980) * 2 ^ 25 + mo * 2 ^ 21 + d * 2 ^ 16 + h * 2 ^ 11 + mi * 2 ^ 5 + s div 2)"
  by (simp add: toInt_def assms js_shl_def push_bit_eq_mult)

lemma digit_div: "0 \<le> r \<Longrightarrow> r < m \<Longrightarrow> (q * m + r) div m = (q :: int)"
  by (simp add: div_pos_pos_trivial)

lemma digit_mod: "0 \<le> r \<Longrightarrow> r < m \<Longrightarrow> (q * m + r) mod m = (r :: int)"
  by (simp add: mod_pos_pos_trivial)

text \<open>The six bit fields of a packed value, when each part fits its field.\<close>

lemma packed_fields:
  fixes a mo d h mi s2 :: int
  assumes "0 \<le> a" "a < 128" "0 \<le> mo" "mo < 16" "0 \<le> d" "d < 32" "0 \<le> h" "h < 32"
    "0 \<le> mi" "mi < 64" "0 \<le> s2" "s2 < 32"
  defines "V \<equiv> a * 33554432 + mo * 2097152 + d * 65536 + h * 2048 + mi * 32 + s2"
  shows "0 \<le> V \<and> V < 4294967296 \<and> V div 33554432 = a \<and> V div 2097152 mod 16 = mo \<and>
    V div 65536 mod 32 = d \<and> V div 2048 mod 32 = h \<and> V div 32 mod 64 = mi \<and> V mod 32 = s2"
proof -
  define W2 where "W2 = a * 16 + mo"
  define W3 where "W3 = W2 * 32 + d"
  define W4 where "W4 = W3 * 32 + h"
  define W5 where "W5 = W4 * 64 + mi"
  have V: "V = W5 * 32 + s2"
    by (simp add: V_def W5_def W4_def W3_def W2_def algebra_simps)
  have b: "0 \<le> V" "V < 4294967296"
    using assms(1-12) unfolding V_def by linarith+
  have d32: "V div 32 = W5" and m32: "V mod 32 = s2"
    using assms(11,12) by (simp_all add: V digit_div digit_mod)
  have d5: "W5 div 64 = W4" and m5: "W5 mod 64 = mi"
    using assms(9,10) by (simp_all add: W5_def digit_div digit_mod)
  have d4: "W4 div 32 = W3" and m4: "W4 mod 32 = h"
    using assms(7,8) by (simp_all add: W4_def digit_div digit_mod)
  have d3: "W3 div 32 = W2" and m3: "W3 mod 32 = d"
    using assms(5,6) by (simp_all add: W3_def digit_div digit_mod)
  have d2: "W2 div 16 = a" and m2: "W2 mod 16 = mo"
    using assms(3,4) by (simp_all add: W2_def digit_div digit_mod)
  have e1: "V div 2048 = V div 32 div 64"
    by (simp add: div_mult2_eq [symmetric])
  have e2: "V div 65536 = V div 32 div 64 div 32"
    by (simp add: div_mult2_eq [symmetric])
  have e3: "V div 2097152 = V div 32 div 64 div 32 div 32"
    by (simp add: div_mult2_eq [symmetric])
  have e4: "V div 33554432 = V div 32 div 64 div 32 div 32 div 16"
    by (simp add: div_mult2_eq [symmetric])
  show ?thesis
    unfolding e1 e2 e3 e4 d32 d5 d4 d3 d2 using b m32 m5 m4 m3 m2 by simp
qed

lemma uint_word_small:
  "0 \<le> x \<Longrightarrow> x < 4294967296 \<Longrightarrow> uint (word_of_int x :: 32 word) = x"
  by (simp add: uint_word_of_int mod_pos_pos_trivial)

lemma uint_word_div:
  assumes "0 \<le> V" "V < 4294967296" "0 < k"
  shows "uint (word_of_int (V div k) :: 32 word) = V div k"
proof (rule uint_word_small)
  show "0 \<le> V div k" using assms by (simp add: pos_imp_zdiv_nonneg_iff)
  have "V div k \<le> V div 1" using assms by (intro zdiv_mono2) auto
  then have "V div k \<le> V" by simp
  then show "V div k < 4294967296" using assms by linarith
qed

lemma unpack_pack:
  assumes "year t = Num y" "1980 \<le> y" "y \<le> 2107"
    and "month t = Num mo" "0 \<le> mo" "mo \<le> 15"
    and "day t = Num d" "0 \<le> d" "d \<le> 31"
    and "hour t = Num h" "0 \<le> h" "h \<le> 31"
    and "minute t = Num mi" "0 \<le> mi" "mi \<le> 63"
    and "second t = Num s" "0 \<le> s" "s \<le> 63"
  shows "fromInt (toInt t) = t\<lparr>second := Num (s - s mod 2)\<rparr>"
proof -
  define V where
    "V = (y - 1980) * 33554432 + mo * 2097152 + d * 65536 + h * 2048 + mi * 32 + s div 2"
  have w: "toInt32 (toInt t) = word_of_int V"
    using toInt_word [OF assms(1,4,7,10,13,16)] by (simp add: V_def)
  have P: "0 \<le> V \<and> V < 4294967296 \<and> V div 33554432 = y - 1980 \<and>
    V div 2097152 mod 16 = mo \<and> V div 65536 mod 32 = d \<and> V div 2048 mod 32 = h \<and>
    V div 32 mod 64 = mi \<and> V mod 32 = s div 2"
    unfolding V_def using assms by (intro packed_fields) auto
  then have u: "uint (word_of_int V :: 32 word) = V"
    and ud: "\<And>k. 0 < k \<Longrightarrow> uint (word_of_int (V div k) :: 32 word) = V div k"
    by (simp_all add: uint_word_small uint_word_div)
  have s2: "s div 2 * 2 = s - s mod 2"
    by (simp add: minus_mod_eq_div_mult)
  show ?thesis
    using P s2 assms(1,4,7,10,13,16)
    by (simp add: fromInt_def js_ushr_Num js_and_masks w u ud)
qed

text \<open>
  Claim C4, as the code has it. For every timestamp whose fields fit the bit fields of the
  packed format (year 1980 to 2107, month 0 to 15, day and hour 0 to 31, minute 0 to 63,
  seconds 0 to 63, which covers the even seconds of 0 to 58), \<^verbatim>\<open>fromInt(toInt(t))\<close> equals
  \<open>t\<close> in every field when the seconds are even, and is \<open>t\<close> with the seconds reduced by
  exactly 1 when they are odd.
\<close>

theorem timestamp_round_trip:
  assumes "year t = Num y" "1980 \<le> y" "y \<le> 2107"
    and "month t = Num mo" "0 \<le> mo" "mo \<le> 15"
    and "day t = Num d" "0 \<le> d" "d \<le> 31"
    and "hour t = Num h" "0 \<le> h" "h \<le> 31"
    and "minute t = Num mi" "0 \<le> mi" "mi \<le> 63"
    and "second t = Num s" "0 \<le> s" "s \<le> 63"
  shows "(even s \<longrightarrow> fromInt (toInt t) = t) \<and>
         (odd s \<longrightarrow> fromInt (toInt t) = t\<lparr>second := Num (s - 1)\<rparr>)"
proof -
  have r: "fromInt (toInt t) = t\<lparr>second := Num (s - s mod 2)\<rparr>"
    using assms by (rule unpack_pack)
  have e: "even s \<Longrightarrow> t\<lparr>second := Num (s - s mod 2)\<rparr> = t"
    using assms(16) by (simp add: even_iff_mod_2_eq_zero)
  have o: "odd s \<Longrightarrow> s - s mod 2 = s - 1"
    by (simp add: odd_iff_mod_2_eq_one)
  show ?thesis using r e o by simp
qed

theorem timestamp_round_trip_witness:
  "fromInt (toInt \<lparr>year = Num 2024, month = Num 2, day = Num 29, hour = Num 13,
                    minute = Num 37, second = Num 59\<rparr>)
   = \<lparr>year = Num 2024, month = Num 2, day = Num 29, hour = Num 13,
       minute = Num 37, second = Num 58\<rparr> \<and>
   fromInt (toInt \<lparr>year = Num 1980, month = Num 1, day = Num 1, hour = Num 0,
                    minute = Num 0, second = Num 58\<rparr>)
   = \<lparr>year = Num 1980, month = Num 1, day = Num 1, hour = Num 0,
       minute = Num 0, second = Num 58\<rparr>"
  using timestamp_round_trip [of "\<lparr>year = Num 2024, month = Num 2, day = Num 29, hour = Num 13,
      minute = Num 37, second = Num 59\<rparr>" 2024 2 29 13 37 59]
    timestamp_round_trip [of "\<lparr>year = Num 1980, month = Num 1, day = Num 1, hour = Num 0,
      minute = Num 0, second = Num 58\<rparr>" 1980 1 1 0 0 58]
  by simp

text \<open>
  Claim C4 as the specification states it (every timestamp with even seconds in 0 to 58)
  fails for a date before 1980, which \<^verbatim>\<open>fromDate\<close> produces for an old file: the year 1979
  comes back as 2107.
\<close>

theorem timestamp_before_1980:
  "fromInt (toInt \<lparr>year = Num 1979, month = Num 12, day = Num 31, hour = Num 0,
                    minute = Num 0, second = Num 0\<rparr>)
   = \<lparr>year = Num 2107, month = Num 12, day = Num 31, hour = Num 0,
       minute = Num 0, second = Num 0\<rparr>"
  by code_simp

section \<open>A buffer without the signature\<close>

text \<open>
  Claim C2 at a buffer of 21 zero bytes, which holds no EOCD signature. The scan gives
  \<open>-1\<close>; \<^verbatim>\<open>moveTo(-1)\<close> passes the setter's check; the first \<^verbatim>\<open>read\<close> of the signature is
  \<^verbatim>\<open>bytes[-1]\<close>, \<^verbatim>\<open>undefined\<close>, so the sum is \<open>NaN\<close> and \<^verbatim>\<open>>>> 0\<close> makes it 0; the other 21
  bytes are read from offsets 0 to 20. The constructor returns an Extractor with no
  entries and throws nothing. One byte less, and it throws the cursor's index error.
\<close>

theorem extractor_of_21_zero_bytes:
  "findLastIndex (sig_match (replicate 21 0)) (length (replicate 21 (0 :: byte))) = - 1 \<and>
   new_Extractor (replicate 21 0) =
     Inr \<lparr>eocd = \<lparr>signature = Num 0, diskId = Num 0, firstDiskId = Num 0, numOfFiles = Num 0,
                  totalNumOfFiles = Num 0, cdSize = Num 0, cdOffset = Num 0, commentBytes = []\<rparr>,
          centralDirectory = [], contents = []\<rparr> \<and>
   new_Extractor (replicate 20 0) = Inl (IndexInvalid (Num 21))"
  by code_simp

section \<open>The flags of an appended entry\<close>

lemma new_flags:
  "flags (new_LocalFileHeader now) = Num 1024"
  "flags (new_CentralDirectoryEntry now) = Num 1024"
  by (simp_all add: new_LocalFileHeader_def new_CentralDirectoryEntry_def LocalFileHeader.extend_def)

text \<open>
  Claim C10. The initializer gives both records of an appended entry the flags 1024
  (bit 10); \<^verbatim>\<open>append\<close> sets bit 11 in both and touches no other bit, so the entry that a
  successful \<^verbatim>\<open>append\<close> adds to each list has flags \<open>3072 = 1024 + 2048\<close>.
\<close>

theorem append_flags:
  assumes "append h dt st buf opt = Inr (n, st')"
  shows "flags (new_LocalFileHeader dt) = Num 1024 \<and>
         flags (new_CentralDirectoryEntry dt) = Num 1024 \<and>
         length (Builder.centralDirectory st') = Suc (length (Builder.centralDirectory st)) \<and>
         length (Builder.contents st') = Suc (length (Builder.contents st)) \<and>
         flags (last (Builder.centralDirectory st')) = Num 3072 \<and>
         flags (header (last (Builder.contents st'))) = Num 3072"
  using assms
  by (auto simp add: append_def Let_def new_flags set_isUtf8_def setFlag_def js_or_def js_shl_def
      split: if_splits)

lemma append_example:
  "append example_host example_date new_Builder [] (Path ''a'') =
     Inr (1, \<lparr>Builder.centralDirectory =
        [\<lparr>LocalFileHeader.signature = Num 0x02014b50, versionNeeded = Num 20, flags = Num 3072,
          LocalFileHeader.method = Num 8,
          lastModified = example_date, crc32 = Num 0, compressedSize = Num 0,
          uncompressedSize = Num 0, fileNameBytes = [0x61], extraFieldBytes = [],
          versionMadeBy = Num 20, diskIdStart = Num 0, internalAttributes = Num 0,
          externalAttributes = Num 0, headerOffset = NaN,
          CentralDirectoryEntry.commentBytes = []\<rparr>],
       Builder.contents =
        [\<lparr>header = \<lparr>LocalFileHeader.signature = Num 0x04034b50, versionNeeded = Num 20,
            flags = Num 3072, LocalFileHeader.method = Num 8, lastModified = example_date,
            crc32 = Num 0, compressedSize = Num 0,
            uncompressedSize = Num 0, fileNameBytes = [0x61], extraFieldBytes = []\<rparr>,
          body = []\<rparr>]\<rparr>)"
  by (simp add: append_def Let_def new_Builder_def new_LocalFileHeader_def
      new_CentralDirectoryEntry_def LocalFileHeader.extend_def CentralDirectoryEntry.fields_def
      set_isUtf8_def setFlag_def js_or_def js_shl_def calc_def js_xor_def encode_opt_def)

theorem append_flags_witness:
  "flags (last (Builder.centralDirectory
      (snd (projr (append example_host example_date new_Builder [] (Path ''a'')))))) = Num 3072 \<and>
   flags (header (last (Builder.contents
      (snd (projr (append example_host example_date new_Builder [] (Path ''a''))))))) = Num 3072"
  using append_flags [OF append_example] by (simp add: append_example)

section \<open>The cursor and the three records\<close>

lemma bindE_simps [simp]:
  "bindE (Inr x) f = f x"
  "bindE (Inl e) f = Inl e"
  by (simp_all add: bindE_def)

lemma length_u16le [simp]: "length (u16le v) = 2"
  by (simp add: u16le_def)

lemma length_u32le [simp]: "length (u32le v) = 4"
  by (simp add: u32le_def)

lemma toUint8_and_ff: "toUint8 (js_and v (Num 0xff)) = ucast (toInt32 v)"
proof -
  have "toUint8 (js_and v (Num 0xff)) = word_of_int (uint (toInt32 v AND 0xff))"
    by (simp add: js_and_ff toUint8_def)
  also have "\<dots> = ucast (toInt32 v AND 0xff)"
    by (simp only: ucast_eq)
  also have "\<dots> = ucast (toInt32 v AND mask 8)"
    by (simp add: mask_eq_exp_minus_1)
  also have "\<dots> = ucast (toInt32 v)"
    by (rule bit_word_eqI) (auto simp add: bit_simps)
  finally show ?thesis .
qed

lemma write_byte_fits:
  assumes "fits c (Suc 0)"
  shows "write_byte c b = Inr (put c [toUint8 b])"
proof -
  from assms have o: "0 \<le> offset c" and l: "nat (offset c) < length (bytes c)"
    by (simp_all add: fits_def)
  have "(bytes c)[nat (offset c) := toUint8 b] =
        take (nat (offset c)) (bytes c) @ [toUint8 b] @ drop (nat (offset c) + 1) (bytes c)"
    using l by (simp add: upd_conv_take_nth_drop)
  then show ?thesis
    using o l by (simp add: write_byte_def set_offset_def store_byte_def put_def)
qed

lemma fits_put [simp]: "fits c (length xs + n) \<Longrightarrow> fits (put c xs) n"
  by (auto simp add: fits_def put_def nat_add_distrib)

lemma fits_less: "fits c m \<Longrightarrow> n \<le> m \<Longrightarrow> fits c n"
  by (simp add: fits_def)

lemma put_put: "fits c (length xs + length ys) \<Longrightarrow> put (put c xs) ys = put c (xs @ ys)"
  by (auto simp add: fits_def put_def nat_add_distrib add.commute add.left_commute)

lemma writeUshort_fits:
  assumes "fits c 2"
  shows "writeUshort c s = Inr (put c (u16le s))"
proof -
  have 1: "fits c (Suc 0)" using assms by (rule fits_less) simp
  have 2: "fits (put c [ucast (toInt32 s)]) (Suc 0)"
    using assms by (intro fits_put) (simp add: eval_nat_numeral)
  have pp: "put (put c [a]) [b] = put c [a, b]" for a b
    using put_put [of c "[a]" "[b]"] assms by (simp add: eval_nat_numeral)
  have sh: "toUint8 (js_and (js_ushr s 8) (Num 0xff)) = ucast (drop_bit 8 (toInt32 s))"
    by (simp add: toUint8_and_ff)
  show ?thesis
    by (simp add: writeUshort_def write_byte_fits 1 2 toUint8_and_ff sh pp u16le_def)
qed

lemma writeInt_fits:
  assumes "fits c 4"
  shows "writeInt c i = Inr (put c (u32le i))"
proof -
  let ?w = "toInt32 i"
  have 1: "fits c (Suc 0)" using assms by (rule fits_less) simp
  have p1: "put (put c [a]) [b] = put c [a, b]" for a b
    using put_put [of c "[a]" "[b]"] fits_less [OF assms, of 2] by (simp add: eval_nat_numeral)
  have p2: "put (put c [a, b]) [d] = put c [a, b, d]" for a b d
    using put_put [of c "[a, b]" "[d]"] fits_less [OF assms, of 3] by (simp add: eval_nat_numeral)
  have p3: "put (put c [a, b, d]) [e] = put c [a, b, d, e]" for a b d e
    using put_put [of c "[a, b, d]" "[e]"] assms by (simp add: eval_nat_numeral)
  have f1: "fits (put c [a]) (Suc 0)" for a
    using fits_less [OF assms, of 2] by (intro fits_put) (simp add: eval_nat_numeral)
  have f2: "fits (put c [a, b]) (Suc 0)" for a b
    using fits_less [OF assms, of 3] by (intro fits_put) (simp add: eval_nat_numeral)
  have f3: "fits (put c [a, b, d]) (Suc 0)" for a b d
    using assms by (intro fits_put) (simp add: eval_nat_numeral)
  have sh: "toUint8 (js_and (js_ushr i k) (Num 0xff)) = ucast (drop_bit (k mod 32) ?w)" for k
    by (simp add: toUint8_and_ff)
  show ?thesis
    by (simp add: writeInt_def write_byte_fits 1 f1 f2 f3 p1 p2 p3 toUint8_and_ff sh u32le_def)
qed

lemma set_bytes_fits:
  assumes "fits c (length src)"
  shows "set_bytes c src = Inr (put c src)"
  using assms
  by (auto simp add: set_bytes_def fits_def Let_def set_offset_def put_def nat_add_distrib add.commute)

lemma bytes_put_all:
  "offset c = 0 \<Longrightarrow> length xs = length (bytes c) \<Longrightarrow> bytes (put c xs) = xs"
  by (simp add: put_def)

lemma fits_new_cursor [simp]: "fits (new_cursor bs) n = (n \<le> length bs)"
  by (simp add: fits_def new_cursor_def)

lemma LocalFileHeader_toBytes_eq:
  "LocalFileHeader_toBytes r = Inr (LocalFileHeader_bytes r)"
proof -
  let ?n = "30 + length (fileNameBytes r) + length (extraFieldBytes r)"
  let ?c = "new_cursor (replicate ?n 0)"
  have len: "length (LocalFileHeader_bytes r) = ?n"
    by (simp add: LocalFileHeader_bytes_def)
  show ?thesis
    unfolding LocalFileHeader_toBytes_def Let_def
    apply (simp add: writeInt_fits writeUshort_fits set_bytes_fits put_put)
    apply (simp add: bytes_put_all new_cursor_def LocalFileHeader_bytes_def)
    done
qed

lemma fits_offset_update [simp]:
  "fits (c\<lparr>offset := x\<rparr>) k = (0 \<le> x \<and> nat x + k \<le> length (bytes c))"
  by (simp add: fits_def)

lemma read_fits:
  assumes "fits c (Suc 0)"
  shows "read c = Inr (Num (uint (bytes c ! nat (offset c))), c\<lparr>offset := offset c + 1\<rparr>)"
  using assms by (auto simp add: read_def set_offset_def byte_at_def fits_def)

lemma uint_byte_bounds: "0 \<le> uint (b :: byte)" "uint (b :: byte) < 256"
  using uint_bounded [of b] by simp_all

lemma sint_word_small:
  assumes "- 2147483648 \<le> y" "y < 2147483648"
  shows "sint (word_of_int y :: 32 word) = y"
proof -
  have "signed_take_bit 31 y = y"
    by (rule signed_take_bit_int_eq_self) (use assms in simp_all)
  then show ?thesis by (simp add: signed_of_int)
qed

lemma js_shl_small:
  assumes "k < 32" "- 2147483648 \<le> x * 2 ^ k" "x * 2 ^ k < 2147483648"
  shows "js_shl (Num x) k = Num (x * 2 ^ k)"
proof -
  have "push_bit k (word_of_int x :: 32 word) = word_of_int (x * 2 ^ k)"
    by (simp add: push_bit_eq_mult)
  then have "sint (push_bit k (word_of_int x :: 32 word)) = x * 2 ^ k"
    using assms(2,3) by (simp only: sint_word_small)
  then show ?thesis
    using assms(1) by (simp add: js_shl_def)
qed

lemma js_shl_byte:
  "js_shl (Num (uint (b :: byte))) 8 = Num (uint b * 256)"
  "js_shl (Num (uint (b :: byte))) 16 = Num (uint b * 65536)"
proof -
  have b: "0 \<le> uint b" "uint b < 256" by (rule uint_byte_bounds)+
  show "js_shl (Num (uint b)) 8 = Num (uint b * 256)"
    using js_shl_small [of 8 "uint b"] b by simp
  show "js_shl (Num (uint b)) 16 = Num (uint b * 65536)"
    using js_shl_small [of 16 "uint b"] b by simp
qed

lemma readAsUshort_fits:
  assumes "fits c 2"
  shows "readAsUshort c =
    Inr (Num (le16 (bytes c) (nat (offset c))), c\<lparr>offset := offset c + 2\<rparr>)"
proof -
  from assms have o: "0 \<le> offset c" and l: "nat (offset c) + 2 \<le> length (bytes c)"
    by (simp_all add: fits_def)
  have 1: "fits c (Suc 0)" using assms by (rule fits_less) simp
  show ?thesis
    using o l
    by (simp add: readAsUshort_def read_fits 1 js_shl_byte le16_def nat_add_distrib)
qed

lemma sint_word_wrap:
  assumes "2147483648 \<le> y" "y < 4294967296"
  shows "sint (word_of_int y :: 32 word) = y - 4294967296"
proof -
  have "(word_of_int y :: 32 word) = word_of_int (y - 4294967296)"
    by simp
  then have "sint (word_of_int y :: 32 word) = sint (word_of_int (y - 4294967296) :: 32 word)"
    by (simp only:)
  also have "\<dots> = y - 4294967296"
    by (rule sint_word_small) (use assms in simp_all)
  finally show ?thesis .
qed

lemma js_shl_byte_24:
  "js_shl (Num (uint (b :: byte))) 24 =
     Num (if uint b < 128 then uint b * 16777216 else uint b * 16777216 - 4294967296)"
proof (cases "uint b < 128")
  case True
  then show ?thesis
    using js_shl_small [of 24 "uint b"] uint_byte_bounds [of b] by simp
next
  case False
  have b: "uint b < 256" by (rule uint_byte_bounds)
  have "push_bit 24 (word_of_int (uint b) :: 32 word) = word_of_int (uint b * 16777216)"
    by (simp add: push_bit_eq_mult)
  then have "sint (push_bit 24 (word_of_int (uint b) :: 32 word)) =
      sint (word_of_int (uint b * 16777216) :: 32 word)"
    by (simp only:)
  also have "\<dots> = uint b * 16777216 - 4294967296"
    by (rule sint_word_wrap) (use False b in simp_all)
  finally have "js_shl (Num (uint b)) 24 = Num (uint b * 16777216 - 4294967296)"
    unfolding js_shl_def toInt32_Num by simp
  with False show ?thesis by simp
qed

lemma le32_bounds: "0 \<le> le32 bs n" "le32 bs n < 4294967296"
proof -
  have b: "0 \<le> uint x \<and> uint x \<le> 255" for x :: byte
    using uint_byte_bounds [of x] by simp
  show "0 \<le> le32 bs n"
    using b [of "bs ! n"] b [of "bs ! (n + 1)"] b [of "bs ! (n + 2)"] b [of "bs ! (n + 3)"]
    unfolding le32_def by linarith
  show "le32 bs n < 4294967296"
    using b [of "bs ! n"] b [of "bs ! (n + 1)"] b [of "bs ! (n + 2)"] b [of "bs ! (n + 3)"]
    unfolding le32_def by linarith
qed

lemma le16_bounds: "0 \<le> le16 bs n" "le16 bs n < 65536"
proof -
  have b: "0 \<le> uint x \<and> uint x \<le> 255" for x :: byte
    using uint_byte_bounds [of x] by simp
  show "0 \<le> le16 bs n"
    using b [of "bs ! n"] b [of "bs ! (n + 1)"] unfolding le16_def by linarith
  show "le16 bs n < 65536"
    using b [of "bs ! n"] b [of "bs ! (n + 1)"] unfolding le16_def by linarith
qed

lemma readAsInt_fits:
  assumes "fits c 4"
  shows "readAsInt c =
    Inr (Num (le32s (bytes c) (nat (offset c))), c\<lparr>offset := offset c + 4\<rparr>)"
proof -
  from assms have o: "0 \<le> offset c" and l: "nat (offset c) + 4 \<le> length (bytes c)"
    by (simp_all add: fits_def)
  let ?n = "nat (offset c)"
  let ?bs = "bytes c"
  have 1: "fits c (Suc 0)" using assms by (rule fits_less) simp
  have b: "0 \<le> uint x \<and> uint x \<le> 255" for x :: byte
    using uint_byte_bounds [of x] by simp
  have s: "le32s ?bs ?n = uint (?bs ! ?n) + uint (?bs ! (?n + 1)) * 256 +
      uint (?bs ! (?n + 2)) * 65536 +
      (if uint (?bs ! (?n + 3)) < 128 then uint (?bs ! (?n + 3)) * 16777216
       else uint (?bs ! (?n + 3)) * 16777216 - 4294967296)"
  proof (cases "uint (?bs ! (?n + 3)) < 128")
    case True
    then have "le32 ?bs ?n < 2147483648"
      using b [of "?bs ! ?n"] b [of "?bs ! (?n + 1)"] b [of "?bs ! (?n + 2)"]
      unfolding le32_def by linarith
    then show ?thesis
      using True le32_bounds(1) [of ?bs ?n]
      by (simp add: le32s_def sint_word_small) (simp add: le32_def)
  next
    case False
    then have "2147483648 \<le> le32 ?bs ?n"
      using b [of "?bs ! ?n"] b [of "?bs ! (?n + 1)"] b [of "?bs ! (?n + 2)"]
      unfolding le32_def by linarith
    then show ?thesis
      using False le32_bounds(2) [of ?bs ?n]
      by (simp add: le32s_def sint_word_wrap) (simp add: le32_def)
  qed
  show ?thesis
    using o l
    by (simp add: readAsInt_def read_fits 1 js_shl_byte js_shl_byte_24 s nat_add_distrib add.commute)
qed

lemma readAsUint_fits:
  assumes "fits c 4"
  shows "readAsUint c =
    Inr (Num (le32 (bytes c) (nat (offset c))), c\<lparr>offset := offset c + 4\<rparr>)"
proof -
  have "uint (word_of_int (le32s bs n) :: 32 word) = le32 bs n" for bs n
    using le32_bounds [of bs n] by (simp add: le32s_def uint_word_small)
  then show ?thesis
    using assms by (simp add: readAsUint_def readAsInt_fits js_ushr_def)
qed

lemma subarray_fits:
  assumes "0 \<le> k" "fits c (nat k)"
  shows "subarray c (Num k) =
    Inr (take (nat k) (drop (nat (offset c)) (bytes c)), c\<lparr>offset := offset c + k\<rparr>)"
  using assms
  by (auto simp add: subarray_def typed_subarray_def rel_index_def set_offset_def fits_def Let_def
      nat_add_distrib min_def)

lemma LocalFileHeader_from_fits:
  assumes "offset c = int n" "n + LocalFileHeader_size (bytes c) n \<le> length (bytes c)"
  shows "LocalFileHeader_from c =
    Inr (LocalFileHeader_at (bytes c) n,
         c\<lparr>offset := int (n + LocalFileHeader_size (bytes c) n)\<rparr>)"
  using assms le16_bounds(1) [of "bytes c" "n + 26"] le16_bounds(1) [of "bytes c" "n + 28"]
  unfolding LocalFileHeader_from_def LocalFileHeader_size_def LocalFileHeader_at_def
  by (simp add: readAsUint_fits readAsUshort_fits subarray_fits fits_def nat_add_distrib
      add.commute add.left_commute)

lemma le16_append [simp]: "le16 (A @ X) (length A + k) = le16 X k"
  by (simp add: le16_def nth_append)

lemma le32_append [simp]: "le32 (A @ X) (length A + k) = le32 X k"
  by (simp add: le32_def nth_append)

lemma le16_skip: "length P \<le> k \<Longrightarrow> le16 (P @ X) k = le16 X (k - length P)"
  using le16_append [of P X "k - length P"] by simp

lemma le32_skip: "length P \<le> k \<Longrightarrow> le32 (P @ X) k = le32 X (k - length P)"
  using le32_append [of P X "k - length P"] by simp

lemma uint_ucast_byte: "uint (ucast (w :: 32 word) :: byte) = uint w mod 256"
  by (simp add: unsigned_ucast_eq take_bit_eq_mod)

lemma le16_u16le: "le16 (u16le v @ X) 0 = uint (toInt32 v) mod 65536"
proof -
  let ?x = "uint (toInt32 v)"
  have "le16 (u16le v @ X) 0 = ?x mod 256 + 256 * (?x div 256 mod 256)"
    by (simp add: le16_def u16le_def uint_ucast_byte uint_drop_bit)
  also have "\<dots> = ?x mod 65536"
    using zmod_zmult2_eq [of 256 ?x 256] by simp
  finally show ?thesis .
qed

lemma le32_u32le: "le32 (u32le v @ X) 0 = uint (toInt32 v)"
proof -
  let ?x = "uint (toInt32 v)"
  have b: "0 \<le> ?x" "?x < 4294967296"
    using uint_bounded [of "toInt32 v"] by simp_all
  have "le32 (u32le v @ X) 0 = ?x mod 256 + 256 * (?x div 256 mod 256) +
      65536 * (?x div 65536 mod 256) + 16777216 * (?x div 16777216 mod 256)"
    by (simp add: le32_def u32le_def uint_ucast_byte uint_drop_bit)
  also have "\<dots> = ?x mod 4294967296"
    using zmod_zmult2_eq [of 256 ?x 256] zmod_zmult2_eq [of 256 ?x 65536]
      zmod_zmult2_eq [of 256 ?x 16777216]
    by simp
  also have "\<dots> = ?x"
    using b by (simp add: mod_pos_pos_trivial)
  finally show ?thesis .
qed

lemma length_LocalFileHeader_bytes:
  "length (LocalFileHeader_bytes r) = 30 + length (fileNameBytes r) + length (extraFieldBytes r)"
  by (simp add: LocalFileHeader_bytes_def)

lemma toInt32_as_uint [simp]:
  "toInt32 (Num (uint (w :: 32 word))) = w"
  by simp

lemma fromInt_cong: "toInt32 a = toInt32 b \<Longrightarrow> fromInt a = fromInt b"
  by (simp add: fromInt_def js_ushr_def js_and_def)

lemma uint_word_of_nat_small:
  assumes "n < 65536"
  shows "uint (word_of_nat n :: 32 word) mod 65536 = int n"
proof -
  have "take_bit 32 n = n"
    using assms by (simp add: take_bit_nat_eq_self_iff)
  then have "uint (word_of_nat n :: 32 word) = int n"
    by (simp add: unsigned_of_nat)
  then show ?thesis using assms by simp
qed

lemma LocalFileHeader_at_bytes:
  assumes "length (fileNameBytes r) < 65536" "length (extraFieldBytes r) < 65536"
  shows "LocalFileHeader_at (A @ LocalFileHeader_bytes r @ B) (length A) =
           LocalFileHeader_read_back r"
    and "LocalFileHeader_size (A @ LocalFileHeader_bytes r @ B) (length A) =
           length (LocalFileHeader_bytes r)"
  using assms
  by (simp_all add: LocalFileHeader_at_def LocalFileHeader_size_def LocalFileHeader_bytes_def
      LocalFileHeader_read_back_def le16_skip le32_skip le16_u16le le32_u32le
      as_uint16_def as_uint32_def uint_word_of_nat_small fromInt_cong [of "Num (uint w)" for w])

lemma CentralDirectoryEntry_toBytes_eq:
  "CentralDirectoryEntry_toBytes r = Inr (CentralDirectoryEntry_bytes r)"
  unfolding CentralDirectoryEntry_toBytes_def Let_def
  apply (simp add: writeInt_fits writeUshort_fits set_bytes_fits put_put)
  apply (simp add: bytes_put_all new_cursor_def CentralDirectoryEntry_bytes_def)
  done

lemma EndOfCentralDirectoryRecord_toBytes_eq:
  "EndOfCentralDirectoryRecord_toBytes r = Inr (EndOfCentralDirectoryRecord_bytes r)"
  unfolding EndOfCentralDirectoryRecord_toBytes_def Let_def
  apply (simp add: writeInt_fits writeUshort_fits set_bytes_fits put_put)
  apply (simp add: bytes_put_all new_cursor_def EndOfCentralDirectoryRecord_bytes_def)
  done

lemma length_CentralDirectoryEntry_bytes:
  "length (CentralDirectoryEntry_bytes r) =
     46 + length (fileNameBytes r) + length (extraFieldBytes r) +
     length (CentralDirectoryEntry.commentBytes r)"
  by (simp add: CentralDirectoryEntry_bytes_def)

lemma length_EndOfCentralDirectoryRecord_bytes:
  "length (EndOfCentralDirectoryRecord_bytes r) =
     22 + length (EndOfCentralDirectoryRecord.commentBytes r)"
  by (simp add: EndOfCentralDirectoryRecord_bytes_def)

lemma CentralDirectoryEntry_from_fits:
  assumes "offset c = int n" "n + CentralDirectoryEntry_size (bytes c) n \<le> length (bytes c)"
  shows "CentralDirectoryEntry_from c =
    Inr (CentralDirectoryEntry_at (bytes c) n,
         c\<lparr>offset := int (n + CentralDirectoryEntry_size (bytes c) n)\<rparr>)"
  using assms le16_bounds(1) [of "bytes c" "n + 28"] le16_bounds(1) [of "bytes c" "n + 30"]
    le16_bounds(1) [of "bytes c" "n + 32"]
  unfolding CentralDirectoryEntry_from_def CentralDirectoryEntry_size_def CentralDirectoryEntry_at_def
  by (simp add: readAsUint_fits readAsUshort_fits subarray_fits fits_def nat_add_distrib
      add.commute add.left_commute)

lemma EndOfCentralDirectoryRecord_from_fits:
  assumes "offset c = int n" "n + EndOfCentralDirectoryRecord_size (bytes c) n \<le> length (bytes c)"
  shows "EndOfCentralDirectoryRecord_from c =
    Inr (EndOfCentralDirectoryRecord_at (bytes c) n,
         c\<lparr>offset := int (n + EndOfCentralDirectoryRecord_size (bytes c) n)\<rparr>)"
  using assms le16_bounds(1) [of "bytes c" "n + 20"]
  unfolding EndOfCentralDirectoryRecord_from_def EndOfCentralDirectoryRecord_size_def
    EndOfCentralDirectoryRecord_at_def
  by (simp add: readAsUint_fits readAsUshort_fits subarray_fits fits_def nat_add_distrib
      add.commute add.left_commute)

lemma CentralDirectoryEntry_at_bytes:
  assumes "length (fileNameBytes r) < 65536" "length (extraFieldBytes r) < 65536"
    "length (CentralDirectoryEntry.commentBytes r) < 65536"
  shows "CentralDirectoryEntry_at (A @ CentralDirectoryEntry_bytes r @ B) (length A) =
           CentralDirectoryEntry_read_back r"
    and "CentralDirectoryEntry_size (A @ CentralDirectoryEntry_bytes r @ B) (length A) =
           length (CentralDirectoryEntry_bytes r)"
  using assms
  by (simp_all add: CentralDirectoryEntry_at_def CentralDirectoryEntry_size_def
      CentralDirectoryEntry_bytes_def
      CentralDirectoryEntry_read_back_def le16_skip le32_skip le16_u16le le32_u32le
      as_uint16_def as_uint32_def uint_word_of_nat_small fromInt_cong [of "Num (uint w)" for w])

lemma EndOfCentralDirectoryRecord_at_bytes:
  assumes "length (EndOfCentralDirectoryRecord.commentBytes r) < 65536"
  shows "EndOfCentralDirectoryRecord_at (A @ EndOfCentralDirectoryRecord_bytes r @ B) (length A) =
           EndOfCentralDirectoryRecord_read_back r"
    and "EndOfCentralDirectoryRecord_size (A @ EndOfCentralDirectoryRecord_bytes r @ B) (length A) =
           length (EndOfCentralDirectoryRecord_bytes r)"
  using assms
  by (simp_all add: EndOfCentralDirectoryRecord_at_def EndOfCentralDirectoryRecord_size_def
      EndOfCentralDirectoryRecord_bytes_def
      EndOfCentralDirectoryRecord_read_back_def le16_skip le32_skip le16_u16le le32_u32le
      as_uint16_def as_uint32_def uint_word_of_nat_small)

section \<open>The round trip of a record\<close>

lemma as_uint16_id: "uint16 v \<Longrightarrow> as_uint16 v = v"
  by (cases v) (simp_all add: uint16_def as_uint16_def uint_word_of_int mod_pos_pos_trivial)

lemma as_uint32_id: "uint32 v \<Longrightarrow> as_uint32 v = v"
  by (cases v) (simp_all add: uint32_def as_uint32_def uint_word_of_int mod_pos_pos_trivial)

lemma LocalFileHeader_read_back_id:
  "LocalFileHeader_in_range (r :: LocalFileHeader) \<Longrightarrow>
   LocalFileHeader_read_back r = r\<lparr>lastModified := fromInt (toInt (lastModified r))\<rparr>"
  by (simp add: LocalFileHeader_in_range_def LocalFileHeader_read_back_def as_uint16_id as_uint32_id)

lemma CentralDirectoryEntry_read_back_id:
  "CentralDirectoryEntry_in_range r \<Longrightarrow>
   CentralDirectoryEntry_read_back r = r\<lparr>lastModified := fromInt (toInt (lastModified r))\<rparr>"
  by (simp add: CentralDirectoryEntry_in_range_def LocalFileHeader_in_range_def
      CentralDirectoryEntry_read_back_def as_uint16_id as_uint32_id)

lemma EndOfCentralDirectoryRecord_read_back_id:
  "EndOfCentralDirectoryRecord_in_range r \<Longrightarrow> EndOfCentralDirectoryRecord_read_back r = r"
  by (simp add: EndOfCentralDirectoryRecord_in_range_def
      EndOfCentralDirectoryRecord_read_back_def as_uint16_id as_uint32_id)

lemma LocalFileHeader_from_bytes:
  assumes "length (fileNameBytes r) < 65536" "length (extraFieldBytes r) < 65536"
    and "bytes c = A @ LocalFileHeader_bytes r @ B" "offset c = int (length A)"
  shows "LocalFileHeader_from c =
    Inr (LocalFileHeader_read_back r,
         c\<lparr>offset := int (length A + length (LocalFileHeader_bytes r))\<rparr>)"
  using LocalFileHeader_from_fits [of c "length A"] assms
  by (simp add: LocalFileHeader_at_bytes)

lemma CentralDirectoryEntry_from_bytes:
  assumes "length (fileNameBytes r) < 65536" "length (extraFieldBytes r) < 65536"
    "length (CentralDirectoryEntry.commentBytes r) < 65536"
    and "bytes c = A @ CentralDirectoryEntry_bytes r @ B" "offset c = int (length A)"
  shows "CentralDirectoryEntry_from c =
    Inr (CentralDirectoryEntry_read_back r,
         c\<lparr>offset := int (length A + length (CentralDirectoryEntry_bytes r))\<rparr>)"
  using CentralDirectoryEntry_from_fits [of c "length A"] assms
  by (simp add: CentralDirectoryEntry_at_bytes)

lemma EndOfCentralDirectoryRecord_from_bytes:
  assumes "length (EndOfCentralDirectoryRecord.commentBytes r) < 65536"
    and "bytes c = A @ EndOfCentralDirectoryRecord_bytes r @ B" "offset c = int (length A)"
  shows "EndOfCentralDirectoryRecord_from c =
    Inr (EndOfCentralDirectoryRecord_read_back r,
         c\<lparr>offset := int (length A + length (EndOfCentralDirectoryRecord_bytes r))\<rparr>)"
  using EndOfCentralDirectoryRecord_from_fits [of c "length A"] assms
  by (simp add: EndOfCentralDirectoryRecord_at_bytes)

text \<open>
  Claim C3, as the code has it. For a record of each kind whose numbers are unsigned
  integers that fit their fields (16 or 32 bits) and whose variable byte ranges are
  shorter than 65536 bytes: \<^verbatim>\<open>toBytes\<close> succeeds and gives the fixed prefix (30, 46 or 22
  bytes) followed by the variable ranges, and \<^verbatim>\<open>from\<close> on a cursor over these bytes gives
  back every field and leaves the cursor at the end; the timestamp of a header or a
  directory entry comes back through \<^verbatim>\<open>fromInt(toInt(...))\<close>, which is the identity on the
  timestamps of claim C4 with even seconds.
\<close>

theorem records_round_trip:
  assumes "LocalFileHeader_in_range (h :: LocalFileHeader)"
    and "CentralDirectoryEntry_in_range e"
    and "EndOfCentralDirectoryRecord_in_range r"
  shows
   "LocalFileHeader_toBytes h = Inr (LocalFileHeader_bytes h) \<and>
    length (LocalFileHeader_bytes h) = 30 + length (fileNameBytes h) + length (extraFieldBytes h) \<and>
    LocalFileHeader_from (new_cursor (LocalFileHeader_bytes h)) =
      Inr (h\<lparr>lastModified := fromInt (toInt (lastModified h))\<rparr>,
           \<lparr>bytes = LocalFileHeader_bytes h, offset = int (length (LocalFileHeader_bytes h))\<rparr>) \<and>
    CentralDirectoryEntry_toBytes e = Inr (CentralDirectoryEntry_bytes e) \<and>
    length (CentralDirectoryEntry_bytes e) =
      46 + length (fileNameBytes e) + length (extraFieldBytes e) +
      length (CentralDirectoryEntry.commentBytes e) \<and>
    CentralDirectoryEntry_from (new_cursor (CentralDirectoryEntry_bytes e)) =
      Inr (e\<lparr>lastModified := fromInt (toInt (lastModified e))\<rparr>,
           \<lparr>bytes = CentralDirectoryEntry_bytes e,
            offset = int (length (CentralDirectoryEntry_bytes e))\<rparr>) \<and>
    EndOfCentralDirectoryRecord_toBytes r = Inr (EndOfCentralDirectoryRecord_bytes r) \<and>
    length (EndOfCentralDirectoryRecord_bytes r) =
      22 + length (EndOfCentralDirectoryRecord.commentBytes r) \<and>
    EndOfCentralDirectoryRecord_from (new_cursor (EndOfCentralDirectoryRecord_bytes r)) =
      Inr (r, \<lparr>bytes = EndOfCentralDirectoryRecord_bytes r,
               offset = int (length (EndOfCentralDirectoryRecord_bytes r))\<rparr>)"
proof -
  have h: "length (fileNameBytes h) < 65536" "length (extraFieldBytes h) < 65536"
    using assms(1) by (simp_all add: LocalFileHeader_in_range_def)
  have e: "length (fileNameBytes e) < 65536" "length (extraFieldBytes e) < 65536"
    "length (CentralDirectoryEntry.commentBytes e) < 65536"
    using assms(2) by (simp_all add: CentralDirectoryEntry_in_range_def LocalFileHeader_in_range_def)
  have r: "length (EndOfCentralDirectoryRecord.commentBytes r) < 65536"
    using assms(3) by (simp add: EndOfCentralDirectoryRecord_in_range_def)
  have 1: "LocalFileHeader_from (new_cursor (LocalFileHeader_bytes h)) =
      Inr (h\<lparr>lastModified := fromInt (toInt (lastModified h))\<rparr>,
           \<lparr>bytes = LocalFileHeader_bytes h, offset = int (length (LocalFileHeader_bytes h))\<rparr>)"
    using LocalFileHeader_from_bytes [OF h, of "new_cursor (LocalFileHeader_bytes h)" "[]" "[]"]
    by (simp add: new_cursor_def LocalFileHeader_read_back_id [OF assms(1)])
  have 2: "CentralDirectoryEntry_from (new_cursor (CentralDirectoryEntry_bytes e)) =
      Inr (e\<lparr>lastModified := fromInt (toInt (lastModified e))\<rparr>,
           \<lparr>bytes = CentralDirectoryEntry_bytes e,
            offset = int (length (CentralDirectoryEntry_bytes e))\<rparr>)"
    using CentralDirectoryEntry_from_bytes [OF e, of "new_cursor (CentralDirectoryEntry_bytes e)" "[]" "[]"]
    by (simp add: new_cursor_def CentralDirectoryEntry_read_back_id [OF assms(2)])
  have 3: "EndOfCentralDirectoryRecord_from (new_cursor (EndOfCentralDirectoryRecord_bytes r)) =
      Inr (r, \<lparr>bytes = EndOfCentralDirectoryRecord_bytes r,
               offset = int (length (EndOfCentralDirectoryRecord_bytes r))\<rparr>)"
    using EndOfCentralDirectoryRecord_from_bytes
      [OF r, of "new_cursor (EndOfCentralDirectoryRecord_bytes r)" "[]" "[]"]
    by (simp add: new_cursor_def EndOfCentralDirectoryRecord_read_back_id [OF assms(3)])
  show ?thesis
    by (simp only: 1 2 3 LocalFileHeader_toBytes_eq CentralDirectoryEntry_toBytes_eq
        EndOfCentralDirectoryRecord_toBytes_eq length_LocalFileHeader_bytes
        length_CentralDirectoryEntry_bytes length_EndOfCentralDirectoryRecord_bytes simp_thms)
qed

lemma calc_a: "calc [0x61] = Num (- 390611389)"
  by (simp add: calc_word crc32_reference_a)

theorem records_round_trip_witness:
  "LocalFileHeader_from (new_cursor (LocalFileHeader_bytes (example_header\<lparr>crc32 := Num 7\<rparr>))) =
      Inr (example_header\<lparr>crc32 := Num 7\<rparr>,
           \<lparr>bytes = LocalFileHeader_bytes (example_header\<lparr>crc32 := Num 7\<rparr>), offset = 31\<rparr>) \<and>
   CentralDirectoryEntry_from (new_cursor (CentralDirectoryEntry_bytes
        (example_entry\<lparr>crc32 := Num 7, headerOffset := Num 0\<rparr>))) =
      Inr (example_entry\<lparr>crc32 := Num 7, headerOffset := Num 0\<rparr>,
           \<lparr>bytes = CentralDirectoryEntry_bytes
              (example_entry\<lparr>crc32 := Num 7, headerOffset := Num 0\<rparr>), offset = 47\<rparr>) \<and>
   EndOfCentralDirectoryRecord_from (new_cursor (EndOfCentralDirectoryRecord_bytes example_eocd)) =
      Inr (example_eocd, \<lparr>bytes = EndOfCentralDirectoryRecord_bytes example_eocd, offset = 22\<rparr>)"
proof -
  have t: "fromInt (toInt example_date) = example_date"
    using timestamp_round_trip [of example_date 2024 2 29 13 37 58] by simp
  show ?thesis
    using records_round_trip [of "example_header\<lparr>crc32 := Num 7\<rparr>"
        "example_entry\<lparr>crc32 := Num 7, headerOffset := Num 0\<rparr>" example_eocd]
    by (simp add: LocalFileHeader_in_range_def CentralDirectoryEntry_in_range_def
        EndOfCentralDirectoryRecord_in_range_def uint16_def uint32_def t
        length_LocalFileHeader_bytes length_CentralDirectoryEntry_bytes
        length_EndOfCentralDirectoryRecord_bytes)
qed

text \<open>
  Claim C3 as the specification states it (every record) fails for the header that
  \<^verbatim>\<open>append\<close> makes for the one-byte content \<open>0x61\<close>: its \<^verbatim>\<open>crc32\<close> field holds the signed
  result of \<^verbatim>\<open>calc\<close>, \<open>-390611389\<close>, and \<^verbatim>\<open>from(toBytes(...))\<close> reads it back as
  \<open>3904355907\<close>.
\<close>

lemma append_example_a:
  "append example_host example_date new_Builder [0x61] example_options =
     Inr (1, \<lparr>Builder.centralDirectory = [example_entry],
              Builder.contents = [\<lparr>header = example_header, body = [0x61]\<rparr>]\<rparr>)"
  by (simp add: append_def Let_def new_Builder_def new_LocalFileHeader_def
      new_CentralDirectoryEntry_def LocalFileHeader.extend_def CentralDirectoryEntry.fields_def
      set_isUtf8_def setFlag_def js_or_def js_shl_def encode_opt_def)

theorem header_crc_not_read_back:
  "crc32 example_header = Num (- 390611389) \<and>
   bindE (LocalFileHeader_toBytes example_header) (\<lambda>bs.
     bindE (LocalFileHeader_from (new_cursor bs)) (\<lambda>(r, c). Inr (crc32 r))) =
   Inr (Num 3904355907)"
proof -
  have "LocalFileHeader_from (new_cursor (LocalFileHeader_bytes example_header)) =
    Inr (LocalFileHeader_read_back example_header,
      (new_cursor (LocalFileHeader_bytes example_header))
        \<lparr>offset := int (length ([] :: byte list) + length (LocalFileHeader_bytes example_header))\<rparr>)"
    by (rule LocalFileHeader_from_bytes [where B = "[]"]) (simp_all add: new_cursor_def)
  then show ?thesis
    by (simp add: LocalFileHeader_toBytes_eq LocalFileHeader_read_back_def as_uint32_def calc_a)
qed

end
